theory Spec2Isabelle
  imports Complex_Main "HOL-Library.AList"
begin

section \<open>Graph preprocessing and data pipeline of the GCN repository\<close>

text \<open>
  The development follows the four source files: \<^verbatim>\<open>app/ds/graph/base_graph.py\<close>,
  \<^verbatim>\<open>app/ds/graph/np_graph.py\<close>, \<^verbatim>\<open>app/ds/data_pipeline.py\<close> and
  \<^verbatim>\<open>app/model/aemodel/base_model.py\<close>.

  Numbers: a float is the real number it stands for. The rounding of every operation
  is modelled where a property turns on it: in the symmetrization and the construction
  of the adjacency matrix (float32) and in the split of the nodes (Python floats,
  float64). The normalization, the Chebyshev polynomials and the loss compute with
  exact reals. Where the source can leave the finite numbers (a division by zero, a
  negative power of zero) the model says so explicitly instead of computing with HOL's
  total division.
\<close>

subsection \<open>Python errors\<close>

datatype py_error =
    AssertionError string
  | KeyError string
  | TypeError
  | ValueError
  | IndexError
  | AttributeError
  | ZeroDivisionError
  | OverflowError
  | InvalidArgumentError
  | SolverError
  | NonFinite

text \<open>
  All constructors but the last are exceptions the program raises. \<open>NonFinite\<close> is
  not an exception: it marks the runs in which numpy goes on with \<open>inf\<close> or \<open>nan\<close>
  entries (and raises nothing), which the exact-real matrices below cannot hold.
\<close>

subsection \<open>Floating-point rounding\<close>

text \<open>
  Rounding to the nearest float of \<open>p\<close> significant bits, ties to the even significand
  (the IEEE default): for \<open>x\<close> from \<open>2 ^ e\<close> up to \<open>2 ^ (e + 1)\<close> the floats are the
  multiples of \<open>u = 2 ^ (e - p + 1)\<close>. The range of the exponent is not modelled (no
  overflow to \<open>inf\<close>, no subnormal numbers).
\<close>

definition round_half_even :: "real \<Rightarrow> int" where
  "round_half_even r =
     (let f = \<lfloor>r\<rfloor>
      in if r - of_int f < 1 / 2 then f
         else if 1 / 2 < r - of_int f then f + 1
         else if even f then f else f + 1)"

definition float_round :: "nat \<Rightarrow> real \<Rightarrow> real" where
  "float_round p x =
     (if x = 0 then 0
      else (let u = 2 powr (of_int \<lfloor>log 2 \<bar>x\<bar>\<rfloor> - real p + 1)
            in of_int (round_half_even (x / u)) * u))"

definition float32 :: "real \<Rightarrow> real" where
  "float32 = float_round 24"

definition float64 :: "real \<Rightarrow> real" where
  "float64 = float_round 53"

subsection \<open>Sparse square matrices\<close>

text \<open>
  An adjacency matrix is built with \<^verbatim>\<open>shape=(node_count, node_count)\<close>, so it is square:
  a dimension and the entry at every position (zero where scipy stores nothing).
\<close>

record matrix =
  msize :: nat
  entry :: "nat \<Rightarrow> nat \<Rightarrow> real"

definition transpose_m :: "matrix \<Rightarrow> matrix" where
  "transpose_m A = A\<lparr>entry := \<lambda>i j. entry A j i\<rparr>"

definition add_m :: "matrix \<Rightarrow> matrix \<Rightarrow> matrix" where
  "add_m A B = A\<lparr>entry := \<lambda>i j. entry A i j + entry B i j\<rparr>"

definition sub_m :: "matrix \<Rightarrow> matrix \<Rightarrow> matrix" where
  "sub_m A B = A\<lparr>entry := \<lambda>i j. entry A i j - entry B i j\<rparr>"

definition scale_m :: "real \<Rightarrow> matrix \<Rightarrow> matrix" where
  "scale_m c A = A\<lparr>entry := \<lambda>i j. c * entry A i j\<rparr>"

text \<open>\<^verbatim>\<open>A > B\<close> on sparse matrices: the boolean matrix of the entrywise comparison.\<close>

definition gt_m :: "matrix \<Rightarrow> matrix \<Rightarrow> nat \<Rightarrow> nat \<Rightarrow> bool" where
  "gt_m A B = (\<lambda>i j. entry B i j < entry A i j)"

text \<open>\<^verbatim>\<open>A.multiply(M)\<close> with a boolean matrix \<open>M\<close>: True counts as 1, False as 0.\<close>

definition multiply_mask :: "matrix \<Rightarrow> (nat \<Rightarrow> nat \<Rightarrow> bool) \<Rightarrow> matrix" where
  "multiply_mask A M = A\<lparr>entry := \<lambda>i j. if M i j then entry A i j else 0\<rparr>"

text \<open>
  Sum and difference of two matrices of one float type, whose rounding is \<open>rnd\<close>: every
  entry of the result is rounded. (For a float \<open>a\<close> the sums \<open>a + 0\<close> and \<open>a - 0\<close> are
  \<open>a\<close> itself.)
\<close>

definition add_r :: "(real \<Rightarrow> real) \<Rightarrow> matrix \<Rightarrow> matrix \<Rightarrow> matrix" where
  "add_r rnd A B = A\<lparr>entry := \<lambda>i j. rnd (entry A i j + entry B i j)\<rparr>"

definition sub_r :: "(real \<Rightarrow> real) \<Rightarrow> matrix \<Rightarrow> matrix \<Rightarrow> matrix" where
  "sub_r rnd A B = A\<lparr>entry := \<lambda>i j. rnd (entry A i j - entry B i j)\<rparr>"

text \<open>
  \<^verbatim>\<open>
  def symmetic_adj(adj):
      adj_t = adj.T
      return adj + adj_t.multiply(adj_t > adj) - adj.multiply(adj_t > adj)
  \<close>
  \<open>rnd\<close> is the rounding of the float type of \<^verbatim>\<open>adj\<close>; the sum is rounded before the
  difference is taken.
\<close>

definition symmetic_adj :: "(real \<Rightarrow> real) \<Rightarrow> matrix \<Rightarrow> matrix" where
  "symmetic_adj rnd adj =
     (let adj_t = transpose_m adj
      in sub_r rnd (add_r rnd adj (multiply_mask adj_t (gt_m adj_t adj)))
                   (multiply_mask adj (gt_m adj_t adj)))"

subsection \<open>The graph object\<close>

text \<open>
  A Python dict is the list of its items in insertion order, with distinct keys:
  \<open>map_of\<close> reads it, \<open>AList.update\<close> stores into it (in place for a known key, at
  the end for a new one) and \<open>length\<close> is \<^verbatim>\<open>len\<close>.

  The attributes \<^verbatim>\<open>features\<close>, \<^verbatim>\<open>adj\<close> and \<^verbatim>\<open>labels\<close> are the fields \<open>g_features\<close>,
  \<open>g_adj\<close> and \<open>g_labels\<close> (\<open>None\<close> until they are read).
  The feature matrix is a scipy \<^verbatim>\<open>csr_matrix\<close> or a dense numpy array; both are given
  by the number of columns and the list of rows.
\<close>

datatype feature_matrix = Csr nat "real list list" | Ndarray nat "real list list"

fun feature_rows :: "feature_matrix \<Rightarrow> real list list" where
  "feature_rows (Csr c rs) = rs"
| "feature_rows (Ndarray c rs) = rs"

fun feature_cols :: "feature_matrix \<Rightarrow> nat" where
  "feature_cols (Csr c rs) = c"
| "feature_cols (Ndarray c rs) = c"

text \<open>
  Modelled from the spec: the model-name constants of \<^verbatim>\<open>app.utils.constant\<close>, which is
  not among the sources (a first-order model, the polynomial model, the autoencoder).
\<close>

datatype model_name = GCN | GCN_POLY | GCN_AE

record graph =
  preprocessed :: bool
  g_features :: "feature_matrix option"
  g_adj :: "matrix option"
  g_labels :: "real list list option"
  sparse_features :: bool
  model_name :: model_name
  label_to_id_map :: "(string \<times> nat) list"
  id_to_label_map :: "(nat \<times> string) list"
  node_to_id_map :: "(string \<times> nat) list"
  id_to_node_map :: "(nat \<times> string) list"
  label_to_node_map :: "(nat \<times> nat set) list"
  node_to_label_map :: "(nat \<times> nat set) list"
  edge_count :: int

text \<open>\<^verbatim>\<open>Base_Graph.__init__\<close>.\<close>

definition init_graph :: "model_name \<Rightarrow> bool \<Rightarrow> graph" where
  "init_graph name sparse =
     \<lparr>preprocessed = False, g_features = None, g_adj = None, g_labels = None,
      sparse_features = sparse, model_name = name,
      label_to_id_map = [], id_to_label_map = [], node_to_id_map = [], id_to_node_map = [],
      label_to_node_map = [], node_to_label_map = [], edge_count = - 1\<rparr>"

subsection \<open>Reading the labels\<close>

text \<open>
  Iterating over a Python set of strings: some enumeration of its distinct elements, in
  the order of the process's string hash \<open>h\<close> (a parameter: the order is not fixed by
  the language).
\<close>

definition iter_set :: "(string \<Rightarrow> nat) \<Rightarrow> string list \<Rightarrow> string list" where
  "iter_set h xs = sort_key h (remdups xs)"

text \<open>\<^verbatim>\<open>{x: id for id, x in enumerate(xs)}\<close>\<close>

definition enumerate_dict :: "string list \<Rightarrow> (string \<times> nat) list" where
  "enumerate_dict xs = fold (\<lambda>(i, x) d. AList.update x i d) (List.enumerate 0 xs) []"

text \<open>\<^verbatim>\<open>d[k]\<close>, which raises \<^verbatim>\<open>KeyError\<close> for an unknown key.\<close>

definition getitem :: "(string \<times> nat) list \<Rightarrow> string \<Rightarrow> py_error + nat" where
  "getitem d k = (case map_of d k of None \<Rightarrow> Inl (KeyError k) | Some v \<Rightarrow> Inr v)"

text \<open>A list of results, stopped by its first error.\<close>

fun sequence :: "(py_error + 'a) list \<Rightarrow> py_error + 'a list" where
  "sequence [] = Inr []"
| "sequence (x # xs) =
     (case x of
        Inl e \<Rightarrow> Inl e
      | Inr v \<Rightarrow> (case sequence xs of Inl e \<Rightarrow> Inl e | Inr vs \<Rightarrow> Inr (v # vs)))"

text \<open>
  \<^verbatim>\<open>
  if node not in node_to_label_map:
      node_to_label_map[node] = set()
  node_to_label_map[node].add(label)
  \<close>
\<close>

definition add_to :: "nat \<Rightarrow> nat \<Rightarrow> (nat \<times> nat set) list \<Rightarrow> (nat \<times> nat set) list" where
  "add_to k v m = AList.update k (insert v (case map_of m k of None \<Rightarrow> {} | Some s \<Rightarrow> s)) m"

definition collect_labels ::
  "(nat \<times> nat) list \<Rightarrow> (nat \<times> nat set) list \<times> (nat \<times> nat set) list" where
  "collect_labels pairs =
     fold (\<lambda>(node, label) (n2l, l2n). (add_to node label n2l, add_to label node l2n)) pairs ([], [])"

text \<open>
  Modelled from the spec: \<^verbatim>\<open>map_set_to_khot_vector\<close> of \<^verbatim>\<open>app.utils.util\<close>, which is not
  among the sources: the vector of length \<open>num_classes\<close> with 1.0 at the indices of the set.
\<close>

definition map_set_to_khot_vector :: "nat set \<Rightarrow> nat \<Rightarrow> real list" where
  "map_set_to_khot_vector index_set num_classes =
     map (\<lambda>i. if i \<in> index_set then 1 else 0) [0..<num_classes]"

text \<open>
  Modelled from the spec: \<^verbatim>\<open>invert_dict\<close> of \<^verbatim>\<open>app.utils.util\<close>, which is not among the
  sources: the dict from each value to its key.
\<close>

definition invert_dict :: "('k \<times> 'v) list \<Rightarrow> ('v \<times> 'k) list" where
  "invert_dict d = fold (\<lambda>(k, v) r. AList.update v k r) d []"

text \<open>
  The array that \<^verbatim>\<open>np.genfromtxt(path, dtype=str)\<close> returns for a label file, as the
  source reads it. \<open>lines\<close> are the lines of the file, two tokens each. For two lines or
  more the array has one row per line, and \<^verbatim>\<open>_data[0]\<close>, \<^verbatim>\<open>_data[1]\<close> are the node and
  the label of a row. For a single line the array is one-dimensional: its elements are
  the two tokens, and \<^verbatim>\<open>_data[0]\<close>, \<^verbatim>\<open>_data[1]\<close> are the first and the second character
  of a token; \<^verbatim>\<open>_data[1]\<close>, which line 54 evaluates first, raises \<^verbatim>\<open>IndexError\<close> for a
  token of one character.
\<close>

definition label_data :: "(string \<times> string) list \<Rightarrow> py_error + (string \<times> string) list" where
  "label_data lines =
     (case lines of
        [(node, label)] \<Rightarrow>
          (if length node < 2 \<or> length label < 2 then Inl IndexError
           else Inr [([node ! 0], [node ! 1]), ([label ! 0], [label ! 1])])
      | _ \<Rightarrow> Inr lines)"

text \<open>
  \<^verbatim>\<open>read_labels\<close>. Both assertions read the attributes of \<^verbatim>\<open>self\<close>, which still hold
  what they held before the call: the attributes are assigned after the assertions.
  The \<^verbatim>\<open>print\<close> calls are left out.
\<close>

definition read_labels ::
  "(string \<Rightarrow> nat) \<Rightarrow> graph \<Rightarrow> (string \<times> string) list \<Rightarrow> py_error + graph" where
  "read_labels h self lines =
     (case label_data lines of
        Inl e \<Rightarrow> Inl e
      | Inr data \<Rightarrow>
     (let label_to_id = enumerate_dict (iter_set h (map snd data));
          node_to_id = enumerate_dict (iter_set h (map fst data))
      in case sequence (map (\<lambda>row.
                case getitem node_to_id (fst row) of
                  Inl e \<Rightarrow> Inl e
                | Inr node \<Rightarrow> (case getitem label_to_id (snd row) of
                                  Inl e \<Rightarrow> Inl e
                                | Inr label \<Rightarrow> Inr (node, label))) data) of
           Inl e \<Rightarrow> Inl e
         | Inr pairs \<Rightarrow>
             (let (node_to_label, label_to_node) = collect_labels pairs;
                  label_count = length label_to_id;
                  label_rows = map (\<lambda>index_set. map_set_to_khot_vector index_set label_count)
                                 (map snd node_to_label)
              in if length (id_to_node_map self) \<noteq> length (node_to_label_map self)
                 then Inl (AssertionError ''Some nodes are missing labels or ids'')
                 else if length (id_to_label_map self) \<noteq> length (label_to_node_map self)
                 then Inl (AssertionError ''Some labels are missing nodes or ids'')
                 else if label_rows = [] then Inl IndexError
                 else Inr (self\<lparr>label_to_id_map := label_to_id,
                                 node_to_id_map := node_to_id,
                                 node_to_label_map := node_to_label,
                                 label_to_node_map := label_to_node,
                                 id_to_label_map := invert_dict label_to_id,
                                 id_to_node_map := invert_dict node_to_id,
                                 g_labels := Some label_rows\<rparr>))))"

subsection \<open>Reading the network\<close>

text \<open>Python's \<^verbatim>\<open>int(x)\<close> on a float, and a numpy cast to an integer type: towards zero.\<close>

definition py_int :: "real \<Rightarrow> int" where
  "py_int x = (if 0 \<le> x then \<lfloor>x\<rfloor> else \<lceil>x\<rceil>)"

text \<open>
  An element of an array built with \<^verbatim>\<open>dtype=np.int32\<close>. Inside the 32-bit range the
  number is cut towards zero. What numpy does with a number outside of it depends on
  its version and on the platform (it raises \<^verbatim>\<open>OverflowError\<close>, or stores a wrapped
  integer): that is the parameter \<open>cast_overflow\<close>.
\<close>

definition to_int32 :: "(real \<Rightarrow> py_error + int) \<Rightarrow> real \<Rightarrow> py_error + int" where
  "to_int32 cast_overflow x =
     (if - (2 ^ 31) \<le> py_int x \<and> py_int x < 2 ^ 31 then Inr (py_int x) else cast_overflow x)"

text \<open>
  The array \<^verbatim>\<open>edges\<close> read by \<^verbatim>\<open>np.genfromtxt\<close>, one row per line of the edge file:
  two columns of node names, or two columns of node names and a third column whose
  entry is given by the number that \<^verbatim>\<open>float\<close> parses from it. (The source takes every
  array that does not have two columns for a weighted one; other widths fail in
  \<^verbatim>\<open>reshape\<close> and are not part of the type.)
\<close>

datatype edge_array =
    TwoColumns "(string \<times> string) list"
  | ThreeColumns "(string \<times> string \<times> real) list"

text \<open>
  \<^verbatim>\<open>sp.coo_matrix((data, (row, col)), shape=(n, n), dtype=np.float32)\<close>: the triples as
  given, one per edge, after the check of the indices against the shape (a negative
  index and an index beyond the shape raise \<^verbatim>\<open>ValueError\<close>). Duplicates are kept; they
  are added up, in float32, when the matrix is converted for the arithmetic of
  \<^verbatim>\<open>symmetic_adj\<close>.
\<close>

record coo_matrix =
  coo_shape :: nat
  coo_data :: "(nat \<times> nat \<times> real) list"

definition make_coo :: "nat \<Rightarrow> (int \<times> int \<times> real) list \<Rightarrow> py_error + coo_matrix" where
  "make_coo n es =
     (if list_all (\<lambda>(i, j, w). 0 \<le> i \<and> i < int n \<and> 0 \<le> j \<and> j < int n) es
      then Inr \<lparr>coo_shape = n, coo_data = map (\<lambda>(i, j, w). (nat i, nat j, w)) es\<rparr>
      else Inl ValueError)"

definition sum_duplicates :: "(real \<Rightarrow> real) \<Rightarrow> real list \<Rightarrow> real" where
  "sum_duplicates rnd ws =
     (case ws of [] \<Rightarrow> 0 | w # rest \<Rightarrow> fold (\<lambda>v acc. rnd (acc + v)) rest w)"

definition coo_to_matrix :: "(real \<Rightarrow> real) \<Rightarrow> coo_matrix \<Rightarrow> matrix" where
  "coo_to_matrix rnd c =
     \<lparr>msize = coo_shape c,
      entry = (\<lambda>i j. sum_duplicates rnd
                 (map (\<lambda>(r, k, w). w) (filter (\<lambda>(r, k, w). r = i \<and> k = j) (coo_data c))))\<rparr>"

text \<open>
  \<^verbatim>\<open>Graph.read_network\<close>. A file of fewer than two lines gives a one-dimensional array,
  on which \<^verbatim>\<open>edges.shape[1]\<close> raises \<^verbatim>\<open>IndexError\<close> (the source's comment expects the
  break for a single edge). In the unweighted branch the names are looked up with
  \<^verbatim>\<open>dict.get\<close>, which gives \<^verbatim>\<open>None\<close> for an unknown name, refused by the int32 array
  with \<^verbatim>\<open>TypeError\<close>; in the weighted branch with \<^verbatim>\<open>d[k]\<close>, which raises
  \<^verbatim>\<open>KeyError\<close>. In the weighted branch the triples \<open>(id, id, float(weight))\<close> are
  stored in one array of \<^verbatim>\<open>dtype=np.int32\<close>, weights included, and \<^verbatim>\<open>coo_matrix\<close>
  converts the int32 weights to float32. The function returns the matrix before
  symmetrization and stores the symmetrized one.
\<close>

definition edge_rows :: "edge_array \<Rightarrow> nat" where
  "edge_rows edges = (case edges of TwoColumns rows \<Rightarrow> length rows | ThreeColumns rows \<Rightarrow> length rows)"

definition int32_id :: "(real \<Rightarrow> py_error + int) \<Rightarrow> nat option \<Rightarrow> py_error + int" where
  "int32_id cast_overflow x =
     (case x of None \<Rightarrow> Inl TypeError | Some i \<Rightarrow> to_int32 cast_overflow (real i))"

definition unweighted_edges ::
  "(real \<Rightarrow> py_error + int) \<Rightarrow> (string \<times> nat) list \<Rightarrow> (string \<times> string) list
     \<Rightarrow> py_error + (int \<times> int \<times> real) list" where
  "unweighted_edges cast_overflow ids rows =
     (case sequence (map (\<lambda>(a, b).
              case int32_id cast_overflow (map_of ids a) of
                Inl e \<Rightarrow> Inl e
              | Inr i \<Rightarrow> (case int32_id cast_overflow (map_of ids b) of
                             Inl e \<Rightarrow> Inl e
                           | Inr j \<Rightarrow> Inr (i, j)))
            rows) of
        Inl e \<Rightarrow> Inl e
      | Inr es \<Rightarrow> Inr (map (\<lambda>(i, j). (i, j, 1)) es))"

definition weighted_edges ::
  "(real \<Rightarrow> py_error + int) \<Rightarrow> (string \<times> nat) list \<Rightarrow> (string \<times> string \<times> real) list
     \<Rightarrow> py_error + (int \<times> int \<times> real) list" where
  "weighted_edges cast_overflow ids rows =
     (case sequence (map (\<lambda>(a, b, w).
              case getitem ids a of
                Inl e \<Rightarrow> Inl e
              | Inr i \<Rightarrow> (case getitem ids b of Inl e \<Rightarrow> Inl e | Inr j \<Rightarrow> Inr (i, j, w))) rows) of
        Inl e \<Rightarrow> Inl e
      | Inr triples \<Rightarrow>
          sequence (map (\<lambda>(i, j, w).
              case to_int32 cast_overflow (real i) of
                Inl e \<Rightarrow> Inl e
              | Inr i' \<Rightarrow> (case to_int32 cast_overflow (real j) of
                             Inl e \<Rightarrow> Inl e
                           | Inr j' \<Rightarrow> (case to_int32 cast_overflow w of
                                          Inl e \<Rightarrow> Inl e
                                        | Inr w' \<Rightarrow> Inr (i', j', float32 (real_of_int w')))))
            triples))"

definition read_network ::
  "(real \<Rightarrow> py_error + int) \<Rightarrow> graph \<Rightarrow> edge_array \<Rightarrow> py_error + (coo_matrix \<times> graph)" where
  "read_network cast_overflow self edges =
     (case g_features self of
        None \<Rightarrow> Inl AttributeError
      | Some f \<Rightarrow>
          (let node_count = length (feature_rows f)
           in if edge_rows edges < 2 then Inl IndexError
              else case (case edges of
                           TwoColumns rows \<Rightarrow>
                             unweighted_edges cast_overflow (node_to_id_map self) rows
                         | ThreeColumns rows \<Rightarrow>
                             weighted_edges cast_overflow (node_to_id_map self) rows) of
                     Inl e \<Rightarrow> Inl e
                   | Inr es \<Rightarrow>
                       (case make_coo node_count es of
                          Inl e \<Rightarrow> Inl e
                        | Inr adj \<Rightarrow>
                            Inr (adj, self\<lparr>g_adj := Some (symmetic_adj float32
                                                              (coo_to_matrix float32 adj)),
                                           edge_count := int (edge_rows edges)\<rparr>))))"

subsection \<open>Normalization and the Chebyshev polynomials\<close>

definition row_sum :: "matrix \<Rightarrow> nat \<Rightarrow> real" where
  "row_sum A i = sum_list (map (entry A i) [0..<msize A])"

text \<open>\<^verbatim>\<open>sp.diags(v, offsets=0)\<close>, \<^verbatim>\<open>sp.eye(size)\<close> and \<^verbatim>\<open>A.dot(B)\<close>.\<close>

definition diags :: "real list \<Rightarrow> matrix" where
  "diags v = \<lparr>msize = length v, entry = (\<lambda>i j. if i = j \<and> i < length v then v ! i else 0)\<rparr>"

definition get_identity :: "nat \<Rightarrow> matrix" where
  "get_identity n = \<lparr>msize = n, entry = (\<lambda>i j. if i = j \<and> i < n then 1 else 0)\<rparr>"

definition dot :: "matrix \<Rightarrow> matrix \<Rightarrow> matrix" where
  "dot A B = A\<lparr>entry := \<lambda>i j. sum_list (map (\<lambda>k. entry A i k * entry B k j) [0..<msize A])\<rparr>"

text \<open>
  \<^verbatim>\<open>np.power(d, -0.5)\<close> is \<open>1 / sqrt d\<close> for a positive row sum, \<open>inf\<close> for zero and
  \<open>nan\<close> for a negative one. The sparse products multiply stored entries only, so the
  result is finite exactly when every non-zero entry \<open>adj[j,i]\<close> has positive row sums
  at \<open>i\<close> and at \<open>j\<close>.
\<close>

definition np_power_neg_half :: "real \<Rightarrow> real" where
  "np_power_neg_half x = 1 / sqrt x"

definition finite_renormalization :: "matrix \<Rightarrow> bool" where
  "finite_renormalization A =
     list_all (\<lambda>i. list_all (\<lambda>j. if entry A j i = 0 then True
                                  else 0 < row_sum A i \<and> 0 < row_sum A j)
                              [0..<msize A]) [0..<msize A]"

text \<open>
  \<^verbatim>\<open>
  def renormalization_trick(adj, symmetric=True):
      if symmetric:
          d = sp.diags(np.power(np.asarray(adj.sum(1)), -0.5).flatten(), offsets=0)
          return adj.dot(d).transpose().dot(d).tocsr()
  \<close>
  There is no \<^verbatim>\<open>else\<close>: with \<^verbatim>\<open>symmetric=False\<close> the function falls off its end and
  returns Python's \<^verbatim>\<open>None\<close>.
\<close>

definition renormalization_trick :: "matrix \<Rightarrow> bool \<Rightarrow> py_error + matrix option" where
  "renormalization_trick adj symmetric =
     (if symmetric
      then (if finite_renormalization adj
            then (let d = diags (map (\<lambda>i. np_power_neg_half (row_sum adj i)) [0..<msize adj])
                  in Inr (Some (dot (transpose_m (dot adj d)) d)))
            else Inl NonFinite)
      else Inr None)"

definition transform_adj :: "matrix \<Rightarrow> bool \<Rightarrow> py_error + matrix option" where
  "transform_adj adj is_symmetric =
     renormalization_trick (add_m adj (get_identity (msize adj))) is_symmetric"

text \<open>
  \<^verbatim>\<open>
  def _compute_chebyshev_recurrence(current, previous, X):
      next = 2 * X.dot(current) - previous
      return next
  \<close>
\<close>

definition compute_chebyshev_recurrence :: "matrix \<Rightarrow> matrix \<Rightarrow> matrix \<Rightarrow> matrix" where
  "compute_chebyshev_recurrence current previous X = sub_m (scale_m 2 (dot X current)) previous"

text \<open>
  Dividing a sparse matrix by a scalar divides its stored (non-zero) entries: by zero
  that leaves the finite numbers unless the matrix has no non-zero entry.
\<close>

definition div_scalar :: "matrix \<Rightarrow> real \<Rightarrow> py_error + matrix" where
  "div_scalar A c =
     (if c = 0 \<and> list_ex (\<lambda>i. list_ex (\<lambda>j. entry A i j \<noteq> 0) [0..<msize A]) [0..<msize A]
      then Inl NonFinite
      else Inr (A\<lparr>entry := \<lambda>i j. entry A i j / c\<rparr>))"

text \<open>
  \<^verbatim>\<open>compute_chebyshev_polynomial\<close>. The eigenvalue solver \<^verbatim>\<open>eigsh(A, k=1, which="LM")\<close> of
  scipy is a parameter: it returns \<^verbatim>\<open>eigval[0]\<close> or raises (\<open>SolverError\<close> stands for its
  own exceptions). The list starts with two
  elements whatever the degree; the loop \<^verbatim>\<open>for i in range(2, degree+1)\<close> appends to it.
\<close>

definition chebyshev_step :: "matrix \<Rightarrow> int \<Rightarrow> matrix list \<Rightarrow> matrix list" where
  "chebyshev_step X i Tk = Tk @ [compute_chebyshev_recurrence (last Tk) (last (butlast Tk)) X]"

definition compute_chebyshev_polynomial ::
  "(matrix \<Rightarrow> py_error + real) \<Rightarrow> matrix \<Rightarrow> int \<Rightarrow> py_error + matrix list" where
  "compute_chebyshev_polynomial eigsh adj degree =
     (case renormalization_trick adj True of
        Inl e \<Rightarrow> Inl e
      | Inr None \<Rightarrow> Inl TypeError
      | Inr (Some adj_normalized) \<Rightarrow>
          (let identity_size = msize adj;
               laplacian_normalized = sub_m (get_identity identity_size) adj_normalized
           in case eigsh laplacian_normalized of
                Inl e \<Rightarrow> Inl e
              | Inr eigval0 \<Rightarrow>
                  (case div_scalar (scale_m 2 laplacian_normalized) eigval0 of
                     Inl e \<Rightarrow> Inl e
                   | Inr scaled \<Rightarrow>
                       (let laplacian_normalized_scaled = sub_m scaled (get_identity identity_size);
                            Tk = [get_identity identity_size, laplacian_normalized_scaled]
                        in Inr (fold (chebyshev_step laplacian_normalized_scaled) [2..degree] Tk)))))"

text \<open>The fields of \<^verbatim>\<open>model_params\<close> that the pipeline reads, each prefixed with \<open>mp\<close>.\<close>

record model_params =
  mp_model_name :: model_name
  mp_support_size :: int
  mp_dropout :: real
  mp_sparse_features :: bool

text \<open>
  \<^verbatim>\<open>Base_Graph.compute_supports\<close>. A support is what the called function returns: a
  matrix, or \<^verbatim>\<open>None\<close>.
\<close>

definition compute_supports ::
  "(matrix \<Rightarrow> py_error + real) \<Rightarrow> graph \<Rightarrow> model_params \<Rightarrow> py_error + matrix option list" where
  "compute_supports eigsh self params =
     (case g_adj self of
        None \<Rightarrow> Inl AttributeError
      | Some a \<Rightarrow>
          (if mp_model_name params = GCN_POLY
           then (case compute_chebyshev_polynomial eigsh a (mp_support_size params - 1) of
                   Inl e \<Rightarrow> Inl e
                 | Inr Tk \<Rightarrow> Inr (map Some Tk))
           else (case transform_adj a True of
                   Inl e \<Rightarrow> Inl e
                 | Inr support \<Rightarrow> Inr [support])))"

subsection \<open>The data pipeline\<close>

text \<open>
  The placeholders that \<^verbatim>\<open>_placeholder_inputs\<close> creates, and the dict it returns, with
  one field per key. A feed dict maps placeholders to the values fed for them; a
  \<^verbatim>\<open>tf.SparseTensorValue\<close> is given by the matrix it holds.
\<close>

datatype placeholder =
    LabelsPlaceholder nat
  | FeaturesPlaceholder bool nat
  | SupportPlaceholder nat
  | MaskPlaceholder
  | DropoutPlaceholder

record placeholders =
  FEATURES :: placeholder
  LABELS :: placeholder
  SUPPORTS :: "placeholder list"
  MASK :: placeholder
  DROPOUT :: placeholder

datatype feed_value =
    LabelsValue "real list list"
  | FeaturesTensor nat "real list list"
  | SupportTensor matrix
  | MaskValue "real list"
  | DropoutValue real

type_synonym feed_dict = "placeholder \<rightharpoonup> feed_value"

record data_pipeline =
  dp_graph :: graph
  dp_model_params :: model_params
  dp_num_elements :: int
  dp_feature_size :: nat
  train_feed_dict :: feed_dict
  validation_feed_dict :: feed_dict
  test_feed_dict :: feed_dict
  placeholder_dict :: "placeholders option"

definition placeholder_inputs :: "bool \<Rightarrow> nat \<Rightarrow> nat \<Rightarrow> nat \<Rightarrow> placeholders" where
  "placeholder_inputs sparse feature_size label_size support_size =
     \<lparr>FEATURES = FeaturesPlaceholder sparse feature_size,
      LABELS = LabelsPlaceholder label_size,
      SUPPORTS = map SupportPlaceholder [0..<support_size],
      MASK = MaskPlaceholder,
      DROPOUT = DropoutPlaceholder\<rparr>"

text \<open>\<^verbatim>\<open>np.arange(start, stop)\<close> on integers.\<close>

definition arange :: "int \<Rightarrow> int \<Rightarrow> int list" where
  "arange start stop = [start..stop - 1]"

text \<open>
  \<^verbatim>\<open>
  def map_indices_to_mask(indices, mask_size):
      mask = np.zeros(mask_size, dtype=np.float32)
      mask[indices] = 1.0
      return mask
  \<close>
  A negative index counts from the end; an index beyond the array raises
  \<^verbatim>\<open>IndexError\<close>.
\<close>

definition map_indices_to_mask :: "int list \<Rightarrow> nat \<Rightarrow> py_error + real list" where
  "map_indices_to_mask indices mask_size =
     (if list_all (\<lambda>i. - int mask_size \<le> i \<and> i < int mask_size) indices
      then Inr (fold (\<lambda>i mask. mask[nat (if i < 0 then i + int mask_size else i) := 1])
                  indices (replicate mask_size 0))
      else Inl IndexError)"

text \<open>\<^verbatim>\<open>rows[index]\<close> with an index array: \<^verbatim>\<open>IndexError\<close> beyond the rows.\<close>

definition take_rows :: "'a list \<Rightarrow> nat list \<Rightarrow> py_error + 'a list" where
  "take_rows rows index =
     (if list_all (\<lambda>i. i < length rows) index then Inr (map (\<lambda>i. rows ! i) index)
      else Inl IndexError)"

text \<open>
  \<^verbatim>\<open>
  dataset_splits_sum = sum(dataset_splits)
  dataset_splits = list(map(lambda x: x / dataset_splits_sum, dataset_splits))
  \<close>
  The quotient of two Python integers is the float nearest to it.
\<close>

definition normalise_splits :: "int list \<Rightarrow> py_error + real list" where
  "normalise_splits dataset_splits =
     (let dataset_splits_sum = sum_list dataset_splits
      in if dataset_splits \<noteq> [] \<and> dataset_splits_sum = 0 then Inl ZeroDivisionError
         else Inr (map (\<lambda>x. float64 (real_of_int x / real_of_int dataset_splits_sum))
                     dataset_splits))"

text \<open>
  Lines 57 to 62 of \<^verbatim>\<open>_populate_feed_dicts\<close>, on the normalised splits:
  \<^verbatim>\<open>
  current_index = 0
  train_index = np.arange(current_index, current_index + int(data_size * dataset_splits[0]))
  current_index = int(data_size * dataset_splits[0])
  val_index = np.arange(current_index, current_index + int(data_size * dataset_splits[1]))
  current_index = int(data_size * dataset_splits[1])
  test_index = np.arange(current_index, current_index + int(data_size * dataset_splits[2]))
  \<close>
  The second assignment to \<^verbatim>\<open>current_index\<close> stores the size of the validation block,
  not the end of it. Each product is a float product, rounded before \<^verbatim>\<open>int\<close> cuts it.
\<close>

definition split_indices :: "nat \<Rightarrow> real list \<Rightarrow> py_error + (int list \<times> int list \<times> int list)" where
  "split_indices data_size dataset_splits =
     (if length dataset_splits < 3 then Inl IndexError
      else
        (let current_index = 0;
             train_index = arange current_index
                             (current_index + py_int (float64 (real data_size * dataset_splits ! 0)));
             current_index = py_int (float64 (real data_size * dataset_splits ! 0));
             val_index = arange current_index
                           (current_index + py_int (float64 (real data_size * dataset_splits ! 1)));
             current_index = py_int (float64 (real data_size * dataset_splits ! 1));
             test_index = arange current_index
                            (current_index + py_int (float64 (real data_size * dataset_splits ! 2)))
         in Inr (train_index, val_index, test_index)))"

text \<open>
  \<^verbatim>\<open>features.nnz\<close> (the number of stored entries, taken to be the non-zero ones) and
  \<^verbatim>\<open>convert_sparse_matrix_to_sparse_tensor\<close>: a dense array has neither \<^verbatim>\<open>nnz\<close> nor
  \<^verbatim>\<open>tocoo\<close>, and \<^verbatim>\<open>None\<close> has no \<^verbatim>\<open>tocoo\<close>.
\<close>

definition nnz :: "feature_matrix \<Rightarrow> py_error + int" where
  "nnz X = (case X of
              Csr c rows \<Rightarrow> Inr (int (sum_list (map (\<lambda>row. length (filter (\<lambda>x. x \<noteq> 0) row)) rows)))
            | Ndarray c rows \<Rightarrow> Inl AttributeError)"

definition features_to_sparse_tensor :: "feature_matrix \<Rightarrow> py_error + feed_value" where
  "features_to_sparse_tensor X =
     (case X of Csr c rows \<Rightarrow> Inr (FeaturesTensor c rows) | Ndarray c rows \<Rightarrow> Inl AttributeError)"

definition support_to_sparse_tensor :: "matrix option \<Rightarrow> py_error + feed_value" where
  "support_to_sparse_tensor X =
     (case X of Some A \<Rightarrow> Inr (SupportTensor A) | None \<Rightarrow> Inl AttributeError)"

definition index_rows :: "feature_matrix \<Rightarrow> nat list \<Rightarrow> py_error + feature_matrix" where
  "index_rows X index =
     (case X of
        Csr c rows \<Rightarrow> (case take_rows rows index of Inl e \<Rightarrow> Inl e | Inr rs \<Rightarrow> Inr (Csr c rs))
      | Ndarray c rows \<Rightarrow> (case take_rows rows index of Inl e \<Rightarrow> Inl e | Inr rs \<Rightarrow> Inr (Ndarray c rs)))"

text \<open>
  \<^verbatim>\<open>
  def get_base_feed_dict():
      feed_dict = {
          self.placeholder_dict[LABELS]: labels,
          self.placeholder_dict[FEATURES]: features
      }
      for i in range(len(supports)):
          feed_dict[self.placeholder_dict[SUPPORTS][i]] = supports[i]
      return feed_dict
  \<close>
\<close>

definition get_base_feed_dict ::
  "placeholders \<Rightarrow> real list list \<Rightarrow> feed_value \<Rightarrow> feed_value list \<Rightarrow> feed_dict" where
  "get_base_feed_dict phd labels features supports =
     fold (\<lambda>i feed. feed(SUPPORTS phd ! i \<mapsto> supports ! i)) [0..<length supports]
       [LABELS phd \<mapsto> LabelsValue labels, FEATURES phd \<mapsto> features]"

text \<open>
  Lines 78 to 88 of \<^verbatim>\<open>_populate_feed_dicts\<close>, one assignment per line of the source. The
  two assignments of \<open>0.0\<close> to the dropout placeholder are made in
  \<^verbatim>\<open>self.train_feed_dict\<close>.
\<close>

definition fill_feed_dicts ::
  "data_pipeline \<Rightarrow> placeholders \<Rightarrow> feed_dict \<Rightarrow> real list \<Rightarrow> real list \<Rightarrow> real list \<Rightarrow> data_pipeline" where
  "fill_feed_dicts self phd base train_mask val_mask test_mask =
     (let self = self\<lparr>train_feed_dict := base\<rparr>;
          self = self\<lparr>train_feed_dict := (train_feed_dict self)(MASK phd \<mapsto> MaskValue train_mask)\<rparr>;
          self = self\<lparr>train_feed_dict :=
                   (train_feed_dict self)(DROPOUT phd \<mapsto> DropoutValue (mp_dropout (dp_model_params self)))\<rparr>;
          self = self\<lparr>validation_feed_dict := base\<rparr>;
          self = self\<lparr>validation_feed_dict :=
                   (validation_feed_dict self)(MASK phd \<mapsto> MaskValue val_mask)\<rparr>;
          self = self\<lparr>train_feed_dict := (train_feed_dict self)(DROPOUT phd \<mapsto> DropoutValue 0)\<rparr>;
          self = self\<lparr>test_feed_dict := base\<rparr>;
          self = self\<lparr>test_feed_dict := (test_feed_dict self)(MASK phd \<mapsto> MaskValue test_mask)\<rparr>;
          self = self\<lparr>train_feed_dict := (train_feed_dict self)(DROPOUT phd \<mapsto> DropoutValue 0)\<rparr>
      in self)"

text \<open>
  \<^verbatim>\<open>DataPipeline._populate_feed_dicts\<close>. The eigenvalue solver and the shuffle of
  \<^verbatim>\<open>np.random.shuffle\<close> are parameters; \<open>random_shuffle\<close> gives the shuffled
  \<^verbatim>\<open>np.arange(data_size)\<close>.
\<close>

definition populate_feed_dicts ::
  "(matrix \<Rightarrow> py_error + real) \<Rightarrow> (nat list \<Rightarrow> nat list) \<Rightarrow> data_pipeline \<Rightarrow> int list
     \<Rightarrow> py_error + data_pipeline" where
  "populate_feed_dicts eigsh random_shuffle self dataset_splits =
     (case normalise_splits dataset_splits of Inl e \<Rightarrow> Inl e | Inr dataset_splits \<Rightarrow>
     (case compute_supports eigsh (dp_graph self) (dp_model_params self) of Inl e \<Rightarrow> Inl e | Inr supports \<Rightarrow>
     (case g_features (dp_graph self) of None \<Rightarrow> Inl AttributeError | Some features \<Rightarrow>
     (case g_labels (dp_graph self) of None \<Rightarrow> Inl AttributeError | Some labels \<Rightarrow>
     (case labels of [] \<Rightarrow> Inl IndexError | label_row # _ \<Rightarrow>
       (let data_size = length (feature_rows features);
            feature_size = feature_cols features;
            label_size = length label_row;
            support_size = length supports
        in
     (case (if mp_sparse_features (dp_model_params self) then nnz features else Inr 0) of
        Inl e \<Rightarrow> Inl e | Inr num_elements \<Rightarrow>
       (let self = self\<lparr>dp_num_elements := num_elements\<rparr>;
            shuffle = random_shuffle [0..<data_size]
        in
     (case index_rows features shuffle of Inl e \<Rightarrow> Inl e | Inr features \<Rightarrow>
     (case features_to_sparse_tensor features of Inl e \<Rightarrow> Inl e | Inr features \<Rightarrow>
     (case sequence (map support_to_sparse_tensor supports) of Inl e \<Rightarrow> Inl e | Inr supports \<Rightarrow>
     (case take_rows labels shuffle of Inl e \<Rightarrow> Inl e | Inr labels \<Rightarrow>
     (case split_indices data_size dataset_splits of
        Inl e \<Rightarrow> Inl e | Inr (train_index, val_index, test_index) \<Rightarrow>
       (let phd = placeholder_inputs (mp_sparse_features (dp_model_params self))
                    feature_size label_size support_size;
            self = self\<lparr>placeholder_dict := Some phd\<rparr>;
            base = get_base_feed_dict phd labels features supports
        in
     (case map_indices_to_mask train_index data_size of Inl e \<Rightarrow> Inl e | Inr train_mask \<Rightarrow>
     (case map_indices_to_mask val_index data_size of Inl e \<Rightarrow> Inl e | Inr val_mask \<Rightarrow>
     (case map_indices_to_mask test_index data_size of Inl e \<Rightarrow> Inl e | Inr test_mask \<Rightarrow>
        Inr (fill_feed_dicts self phd base train_mask val_mask test_mask))))))))))))))))))"

text \<open>
  Modelled from the spec: the mode constants of \<^verbatim>\<open>app.utils.constant\<close>, which is not
  among the sources.
\<close>

datatype mode = TRAIN | VALIDATION | TEST | OTHER_MODE

definition get_feed_dict :: "data_pipeline \<Rightarrow> mode \<Rightarrow> feed_dict option" where
  "get_feed_dict self m =
     (if m = TRAIN then Some (train_feed_dict self)
      else if m = VALIDATION then Some (validation_feed_dict self)
      else if m = TEST then Some (test_feed_dict self)
      else None)"

subsection \<open>The loss of the autoencoder model\<close>

text \<open>
  A TensorFlow float: a finite number (exact), an infinity or \<^verbatim>\<open>nan\<close>, with the
  IEEE rules for the product and the sum. (The sign of a zero is not modelled.)
\<close>

datatype tfloat = Finite real | PosInf | NegInf | NaN

definition tf_div :: "real \<Rightarrow> real \<Rightarrow> tfloat" where
  "tf_div x y =
     (if y = 0 then (if x = 0 then NaN else if 0 < x then PosInf else NegInf)
      else Finite (x / y))"

fun tf_mul :: "real \<Rightarrow> tfloat \<Rightarrow> tfloat" where
  "tf_mul x (Finite y) = Finite (x * y)"
| "tf_mul x PosInf = (if x = 0 then NaN else if 0 < x then PosInf else NegInf)"
| "tf_mul x NegInf = (if x = 0 then NaN else if 0 < x then NegInf else PosInf)"
| "tf_mul x NaN = NaN"

fun tf_add :: "tfloat \<Rightarrow> tfloat \<Rightarrow> tfloat" where
  "tf_add (Finite x) (Finite y) = Finite (x + y)"
| "tf_add NaN b = NaN"
| "tf_add a NaN = NaN"
| "tf_add PosInf NegInf = NaN"
| "tf_add NegInf PosInf = NaN"
| "tf_add PosInf b = PosInf"
| "tf_add a PosInf = PosInf"
| "tf_add NegInf b = NegInf"
| "tf_add a NegInf = NegInf"

text \<open>\<^verbatim>\<open>tf.reduce_sum\<close> and \<^verbatim>\<open>tf.reduce_mean\<close> (the mean of no element is \<open>0 / 0\<close>).\<close>

definition reduce_sum :: "tfloat list \<Rightarrow> tfloat" where
  "reduce_sum xs = foldr tf_add xs (Finite 0)"

definition reduce_mean :: "real list \<Rightarrow> tfloat" where
  "reduce_mean xs = tf_div (sum_list xs) (real (length xs))"

text \<open>
  A \<^verbatim>\<open>tf.SparseTensor\<close> of rank one: the stored \<open>(index, value)\<close> pairs and the dense
  shape. \<^verbatim>\<open>tf.sparse_tensor_to_dense\<close> validates the indices (increasing, without
  repeats, inside the shape) and fills the other positions with zero.
\<close>

record 'a sparse_tensor =
  st_entries :: "(nat \<times> 'a) list"
  st_dense_shape :: nat

definition sparse_reduce_sum :: "real sparse_tensor \<Rightarrow> real" where
  "sparse_reduce_sum t = sum_list (map snd (st_entries t))"

text \<open>
  \<^verbatim>\<open>self.mask / tf.sparse_reduce_sum(self.mask)\<close>: TensorFlow divides every stored value
  by the scalar. What its kernel answers when the scalar is zero is decided inside the
  library and not in the source (the IEEE quotient, or an error of the kernel): it is
  the parameter \<open>div_by_zero\<close>, asked once per stored value. A tensor that stores nothing
  is divided without any division.
\<close>

definition sparse_div ::
  "(real \<Rightarrow> py_error + tfloat) \<Rightarrow> real sparse_tensor \<Rightarrow> real \<Rightarrow> py_error + tfloat sparse_tensor" where
  "sparse_div div_by_zero t c =
     (case sequence (map (\<lambda>(i, v).
              case (if c = 0 then div_by_zero v else Inr (Finite (v / c))) of
                Inl e \<Rightarrow> Inl e
              | Inr q \<Rightarrow> Inr (i, q)) (st_entries t)) of
        Inl e \<Rightarrow> Inl e
      | Inr es \<Rightarrow> Inr \<lparr>st_entries = es, st_dense_shape = st_dense_shape t\<rparr>)"

text \<open>Two kernels: the one that follows IEEE, and one that raises.\<close>

definition ieee_div_by_zero :: "real \<Rightarrow> py_error + tfloat" where
  "ieee_div_by_zero v = Inr (tf_div v 0)"

definition raising_div_by_zero :: "real \<Rightarrow> py_error + tfloat" where
  "raising_div_by_zero v = Inl InvalidArgumentError"

definition valid_indices :: "'a sparse_tensor \<Rightarrow> bool" where
  "valid_indices t =
     (sorted_wrt (<) (map fst (st_entries t)) \<and>
      list_all (\<lambda>i. i < st_dense_shape t) (map fst (st_entries t)))"

definition sparse_tensor_to_dense :: "tfloat sparse_tensor \<Rightarrow> py_error + tfloat list" where
  "sparse_tensor_to_dense t =
     (if valid_indices t
      then Inr (map (\<lambda>i. case map_of (st_entries t) i of None \<Rightarrow> Finite 0 | Some v \<Rightarrow> v)
                  [0..<st_dense_shape t])
      else Inl InvalidArgumentError)"

text \<open>
  \<^verbatim>\<open>tf.multiply\<close> of two vectors: elementwise for equal lengths, broadcast for a vector of
  one element, refused otherwise.
\<close>

definition multiply :: "real list \<Rightarrow> tfloat list \<Rightarrow> py_error + tfloat list" where
  "multiply xs ys =
     (if length xs = length ys then Inr (map2 tf_mul xs ys)
      else if length xs = 1 then Inr (map (tf_mul (hd xs)) ys)
      else if length ys = 1 then Inr (map (\<lambda>x. tf_mul x (hd ys)) xs)
      else Inl InvalidArgumentError)"

text \<open>
  The attributes of the autoencoder's \<^verbatim>\<open>Base_Model\<close> that \<^verbatim>\<open>_loss_op\<close> reads: one label,
  one output and one mask position per node pair, flattened.
\<close>

record base_model =
  bm_labels :: "real list"
  bm_outputs :: "real list"
  bm_mask :: "real sparse_tensor"
  bm_mode :: mode
  normalisation_constant :: real
  positive_sample_weight :: real

text \<open>
  \<^verbatim>\<open>tf.nn.weighted_cross_entropy_with_logits\<close>, by the formula of its documentation:
  \<open>targets * -log(sigmoid(logits)) * pos_weight + (1 - targets) * -log(1 - sigmoid(logits))\<close>;
  it refuses targets and logits of different shapes.
\<close>

definition sigmoid :: "real \<Rightarrow> real" where
  "sigmoid x = 1 / (1 + exp (- x))"

definition weighted_cross_entropy_with_logits ::
  "real list \<Rightarrow> real list \<Rightarrow> real \<Rightarrow> py_error + real list" where
  "weighted_cross_entropy_with_logits targets logits pos_weight =
     (if length targets = length logits
      then Inr (map2 (\<lambda>t x. t * (- ln (sigmoid x)) * pos_weight
                              + (1 - t) * (- ln (1 - sigmoid x))) targets logits)
      else Inl ValueError)"

text \<open>
  \<^verbatim>\<open>
  def _compute_masked_loss(complete_loss):
      normalized_mask = self.mask / tf.sparse_reduce_sum(self.mask)
      complete_loss = tf.multiply(complete_loss, tf.sparse_tensor_to_dense(normalized_mask))
      return tf.reduce_sum(complete_loss)
  \<close>
  Nothing compares the sum of the mask with zero.
\<close>

definition compute_masked_loss ::
  "(real \<Rightarrow> py_error + tfloat) \<Rightarrow> base_model \<Rightarrow> real list \<Rightarrow> py_error + tfloat" where
  "compute_masked_loss div_by_zero self complete_loss =
     (case sparse_div div_by_zero (bm_mask self) (sparse_reduce_sum (bm_mask self)) of
        Inl e \<Rightarrow> Inl e
      | Inr normalized_mask \<Rightarrow>
          (case sparse_tensor_to_dense normalized_mask of
             Inl e \<Rightarrow> Inl e
           | Inr dense \<Rightarrow>
               (case multiply complete_loss dense of
                  Inl e \<Rightarrow> Inl e
                | Inr masked \<Rightarrow> Inr (reduce_sum masked))))"

text \<open>
  \<^verbatim>\<open>
  complete_loss = tf.cond(tf.equal(self.mode, TRAIN),
                          true_fn=lambda : tf.reduce_mean(complete_loss),
                          false_fn=lambda : _compute_masked_loss(complete_loss))
  return complete_loss * self.normalisation_constant
  \<close>
  Only the branch that \<^verbatim>\<open>tf.cond\<close> selects is run.
\<close>

definition loss_op :: "(real \<Rightarrow> py_error + tfloat) \<Rightarrow> base_model \<Rightarrow> py_error + tfloat" where
  "loss_op div_by_zero self =
     (case weighted_cross_entropy_with_logits (bm_labels self) (bm_outputs self)
             (positive_sample_weight self) of
        Inl e \<Rightarrow> Inl e
      | Inr complete_loss \<Rightarrow>
          (case (if bm_mode self = TRAIN then Inr (reduce_mean complete_loss)
                 else compute_masked_loss div_by_zero self complete_loss) of
             Inl e \<Rightarrow> Inl e
           | Inr loss \<Rightarrow> Inr (tf_mul (normalisation_constant self) loss)))"

text \<open>The dense vector of a mask, for the statements about the masked loss.\<close>

definition mask_vector :: "real sparse_tensor \<Rightarrow> real list" where
  "mask_vector t =
     map (\<lambda>i. case map_of (st_entries t) i of None \<Rightarrow> 0 | Some v \<Rightarrow> v) [0..<st_dense_shape t]"

subsection \<open>Concrete inputs\<close>

text \<open>The example of the docstring of \<^verbatim>\<open>symmetic_adj\<close>: the matrix \<open>[[1, 2], [1, 1]]\<close>.\<close>

definition docstring_adj :: matrix where
  "docstring_adj = \<lparr>msize = 2, entry = (\<lambda>i j. if i = 0 \<and> j = 1 then 2 else 1)\<rparr>"

text \<open>
  The matrix \<open>[[0, 1], [16777216, 0]]\<close>, which \<^verbatim>\<open>read_network\<close> builds for the edge file
  with the lines \<open>a b 1\<close> and \<open>b a 16777216\<close> (16777216 is \<open>2 ^ 24\<close>).
\<close>

definition rounding_adj :: matrix where
  "rounding_adj =
     \<lparr>msize = 2, entry = (\<lambda>i j. if i = 0 \<and> j = 1 then 1
                                 else if i = 1 \<and> j = 0 then 16777216 else 0)\<rparr>"

text \<open>The path of two nodes, \<open>[[0, 1], [1, 0]]\<close>, and the rows of a matrix.\<close>

definition path_adj :: matrix where
  "path_adj =
     \<lparr>msize = 2, entry = (\<lambda>i j. if (i = 0 \<and> j = 1) \<or> (i = 1 \<and> j = 0) then 1 else 0)\<rparr>"

definition show_matrix :: "matrix \<Rightarrow> real list list" where
  "show_matrix A = map (\<lambda>i. map (entry A i) [0..<msize A]) [0..<msize A]"

text \<open>
  A graph of two nodes \<open>a\<close> and \<open>b\<close> with identity features, as \<^verbatim>\<open>read_labels\<close> and
  \<^verbatim>\<open>read_features\<close> leave it for \<^verbatim>\<open>read_network\<close>; and a pipeline on it, with the
  path as adjacency matrix and a configured dropout of 0.5.
\<close>

definition network_graph :: graph where
  "network_graph =
     (init_graph GCN True)\<lparr>g_features := Some (Csr 2 [[1, 0], [0, 1]]),
                             node_to_id_map := [(''a'', 0), (''b'', 1)]\<rparr>"

definition example_pipeline :: data_pipeline where
  "example_pipeline =
     \<lparr>dp_graph = network_graph\<lparr>g_labels := Some [[1, 0], [0, 1]], g_adj := Some path_adj\<rparr>,
      dp_model_params = \<lparr>mp_model_name = GCN, mp_support_size = 1, mp_dropout = 1 / 2,
                         mp_sparse_features = True\<rparr>,
      dp_num_elements = - 1, dp_feature_size = 2,
      train_feed_dict = Map.empty, validation_feed_dict = Map.empty, test_feed_dict = Map.empty,
      placeholder_dict = None\<rparr>"

text \<open>
  Models of two positions with the labels \<open>[1, 0]\<close> and the outputs \<open>[0, 0]\<close>: in
  validation mode with a mask that stores two zeros, with a mask that stores nothing,
  and with the mask of the second position; and in train mode. The last two have the
  normalisation constant 2.
\<close>

definition zero_mask_model :: base_model where
  "zero_mask_model =
     \<lparr>bm_labels = [1, 0], bm_outputs = [0, 0],
      bm_mask = \<lparr>st_entries = [(0, 0), (1, 0)], st_dense_shape = 2\<rparr>,
      bm_mode = VALIDATION, normalisation_constant = 1, positive_sample_weight = 1\<rparr>"

definition empty_mask_model :: base_model where
  "empty_mask_model = zero_mask_model\<lparr>bm_mask := \<lparr>st_entries = [], st_dense_shape = 2\<rparr>\<rparr>"

definition eval_model :: base_model where
  "eval_model = zero_mask_model\<lparr>bm_mask := \<lparr>st_entries = [(1, 1)], st_dense_shape = 2\<rparr>,
                                 normalisation_constant := 2\<rparr>"

definition train_model :: base_model where
  "train_model = zero_mask_model\<lparr>bm_mode := TRAIN, normalisation_constant := 2\<rparr>"

section \<open>Properties\<close>

lemma upt2: "[0..<2] = [0, 1]"
  by (simp add: upt_rec)

lemma sequence_length: "sequence xs = Inr vs \<Longrightarrow> length vs = length xs"
  by (induction xs arbitrary: vs) (auto split: sum.splits)

lemma sequence_Inr:
  "(\<And>x. x \<in> set xs \<Longrightarrow> \<exists>v. f x = Inr v) \<Longrightarrow> \<exists>vs. sequence (map f xs) = Inr vs"
proof (induction xs)
  case Nil
  then show ?case by simp
next
  case (Cons a xs)
  then obtain v vs where "f a = Inr v" "sequence (map f xs) = Inr vs"
    by (metis list.set_intros(1) list.set_intros(2))
  then show ?case by simp
qed

lemma sequence_map_Inr: "sequence (map f xs) = Inr vs \<Longrightarrow> map f xs = map Inr vs"
  by (induction xs arbitrary: vs) (auto split: sum.splits)

lemma sequence_map_Inr_fun: "sequence (map (\<lambda>x. Inr (g x)) xs) = Inr (map g xs)"
  by (induction xs) simp_all

lemma sequence_map_Inl: "xs \<noteq> [] \<Longrightarrow> sequence (map (\<lambda>x. Inl e) xs) = Inl e"
  by (cases xs) simp_all

subsection \<open>Rounding\<close>

text \<open>The rounding of a number whose binade is known.\<close>

lemma float_round_binade:
  assumes "2 powr (of_int e) \<le> \<bar>x\<bar>" "\<bar>x\<bar> < 2 powr (of_int e + 1)"
    and "u = 2 powr (of_int e - real p + 1)"
  shows "float_round p x = of_int (round_half_even (x / u)) * u"
proof -
  have pos: "0 < \<bar>x\<bar>"
    using assms(1) by (smt (verit) powr_gt_zero)
  then have "\<lfloor>log 2 \<bar>x\<bar>\<rfloor> = e"
    using assms(1,2) by (simp add: floor_log_eq_powr_iff)
  moreover have "x \<noteq> 0"
    using pos by simp
  ultimately show ?thesis
    by (simp add: float_round_def Let_def assms(3))
qed

lemma float64_split_1200: "float64 (4 / 9) = 2001599834386887 / 4503599627370496"
  unfolding float64_def
  by (subst float_round_binade [where e = "- 2" and u = "1 / 2 ^ 54"])
    (simp_all add: round_half_even_def powr_neg_numeral)

lemma float64_split_500: "float64 (5 / 27) = 3335999723978145 / 18014398509481984"
  unfolding float64_def
  by (subst float_round_binade [where e = "- 3" and u = "1 / 2 ^ 55"])
    (simp_all add: round_half_even_def powr_neg_numeral)

lemma float64_split_1000: "float64 (10 / 27) = 3335999723978145 / 9007199254740992"
  unfolding float64_def
  by (subst float_round_binade [where e = "- 2" and u = "1 / 2 ^ 54"])
    (simp_all add: round_half_even_def powr_neg_numeral)

lemma float64_size_1200: "float64 (1351079888211148725 / 1125899906842624) = 1200"
  unfolding float64_def
  by (subst float_round_binade [where e = 10 and u = "1 / 2 ^ 42"])
    (simp_all add: round_half_even_def powr_neg_numeral)

lemma float64_size_500: "float64 (2251799813685247875 / 4503599627370496) = 500"
  unfolding float64_def
  by (subst float_round_binade [where e = 8 and u = "1 / 2 ^ 44"])
    (simp_all add: round_half_even_def powr_neg_numeral)

lemma float64_size_1000: "float64 (2251799813685247875 / 2251799813685248) = 1000"
  unfolding float64_def
  by (subst float_round_binade [where e = 9 and u = "1 / 2 ^ 43"])
    (simp_all add: round_half_even_def powr_neg_numeral)

lemma float64_two_1200:
  "float64 (2001599834386887 / 2251799813685248) = 2001599834386887 / 2251799813685248"
  unfolding float64_def
  by (subst float_round_binade [where e = "- 1" and u = "1 / 2 ^ 53"])
    (simp_all add: round_half_even_def powr_neg_numeral)

lemma float64_two_500:
  "float64 (3335999723978145 / 9007199254740992) = 3335999723978145 / 9007199254740992"
  unfolding float64_def
  by (subst float_round_binade [where e = "- 2" and u = "1 / 2 ^ 54"])
    (simp_all add: round_half_even_def powr_neg_numeral)

lemma float64_two_1000:
  "float64 (3335999723978145 / 4503599627370496) = 3335999723978145 / 4503599627370496"
  unfolding float64_def
  by (subst float_round_binade [where e = "- 1" and u = "1 / 2 ^ 53"])
    (simp_all add: round_half_even_def powr_neg_numeral)

lemma float64_3_11: "float64 (3 / 11) = 1228254443828317 / 4503599627370496"
  unfolding float64_def
  by (subst float_round_binade [where e = "- 2" and u = "1 / 2 ^ 54"])
    (simp_all add: round_half_even_def powr_neg_numeral)

lemma float64_55_3_11:
  "float64 (67553994410557435 / 4503599627370496) = 8444249301319679 / 562949953421312"
  unfolding float64_def
  by (subst float_round_binade [where e = 3 and u = "1 / 2 ^ 49"])
    (simp_all add: round_half_even_def powr_neg_numeral)

lemma float32_2: "float32 2 = 2"
  unfolding float32_def
  by (subst float_round_binade [where e = 1 and u = "1 / 2 ^ 22"])
    (simp_all add: round_half_even_def powr_neg_numeral)

lemma float32_1: "float32 1 = 1"
  unfolding float32_def
  by (subst float_round_binade [where e = 0 and u = "1 / 2 ^ 23"])
    (simp_all add: round_half_even_def powr_neg_numeral)

lemma float32_0: "float32 0 = 0"
  by (simp add: float32_def float_round_def)

lemma float32_two_24: "float32 16777216 = 16777216"
  unfolding float32_def
  by (subst float_round_binade [where e = 24 and u = 2]) (simp_all add: round_half_even_def)

lemma float32_two_24_plus_1: "float32 16777217 = 16777216"
  unfolding float32_def
  by (subst float_round_binade [where e = 24 and u = 2]) (simp_all add: round_half_even_def)

lemma float32_two_24_minus_1: "float32 16777215 = 16777215"
  unfolding float32_def
  by (subst float_round_binade [where e = 23 and u = 1]) (simp_all add: round_half_even_def)

lemma float32_two_25_minus_1: "float32 33554431 = 33554432"
  unfolding float32_def
  by (subst float_round_binade [where e = 24 and u = 2]) (simp_all add: round_half_even_def)

lemma float32_3: "float32 3 = 3"
  unfolding float32_def
  by (subst float_round_binade [where e = 1 and u = "1 / 2 ^ 22"])
    (simp_all add: round_half_even_def powr_neg_numeral)

subsection \<open>The split of the nodes\<close>

lemma set_arange: "set (arange a b) = {a..<b}"
  by (auto simp: arange_def)

lemma normalise_splits_default:
  "normalise_splits [1200, 500, 1000]
     = Inr [2001599834386887 / 4503599627370496, 3335999723978145 / 18014398509481984,
            3335999723978145 / 9007199254740992]"
  by (simp add: normalise_splits_def float64_split_1200 float64_split_500 float64_split_1000)

lemma length_arange: "length (arange a b) = nat (b - a)"
  by (simp add: arange_def)

text \<open>
  What lines 57 to 62 compute in general, with
  \<open>n\<^sub>i = int(data_size * dataset_splits[i])\<close> in double precision: the blocks \<open>[0, n\<^sub>0)\<close>,
  \<open>[n\<^sub>0, n\<^sub>0 + n\<^sub>1)\<close> and \<open>[n\<^sub>1, n\<^sub>1 + n\<^sub>2)\<close>.
\<close>

lemma split_indices_blocks:
  assumes "split_indices data_size [p0, p1, p2] = Inr (train_index, val_index, test_index)"
  shows "set train_index = {0..<py_int (float64 (real data_size * p0))} \<and>
         set val_index = {py_int (float64 (real data_size * p0))..<
                            py_int (float64 (real data_size * p0))
                              + py_int (float64 (real data_size * p1))} \<and>
         set test_index = {py_int (float64 (real data_size * p1))..<
                             py_int (float64 (real data_size * p1))
                               + py_int (float64 (real data_size * p2))}"
  using assms by (auto simp: split_indices_def Let_def set_arange)

text \<open>
  The float product can fall below the exact one: \<open>55 * (3 / 11)\<close> is 15, and the block
  has 14 positions.
\<close>

lemma split_size_rounding_example: "py_int (float64 (55 * float64 (3 / 11))) = 14"
  by (simp add: float64_3_11 float64_55_3_11 py_int_def)

text \<open>
  Claim C1, at its own example. For 2700 nodes and the weights \<open>[1200, 500, 1000]\<close> the
  claim promises three pairwise disjoint blocks of sizes 1200, 500 and 1000. The source
  computes the training block \<open>[0, 1200)\<close> and the validation block \<open>[1200, 1700)\<close>, and
  then the test block \<open>[500, 1500)\<close>, which starts at the size of the validation block:
  position 600 is in the training and in the test block, position 1300 in the
  validation and in the test block.
\<close>

theorem split_indices_overlap:
  "\<exists>train_index val_index test_index.
     (case normalise_splits [1200, 500, 1000] of
        Inl e \<Rightarrow> Inl e
      | Inr dataset_splits \<Rightarrow> split_indices 2700 dataset_splits)
       = Inr (train_index, val_index, test_index) \<and>
     set train_index = {0..<1200} \<and> set val_index = {1200..<1700} \<and>
     set test_index = {500..<1500} \<and>
     600 \<in> set train_index \<inter> set test_index \<and> 1300 \<in> set val_index \<inter> set test_index"
  by (simp add: normalise_splits_default split_indices_def py_int_def set_arange Let_def
      float64_size_1200 float64_size_500 float64_size_1000)

subsection \<open>The dropout of the three feed dicts\<close>

lemma dropout_after_fill:
  "MASK phd = MaskPlaceholder \<Longrightarrow> DROPOUT phd = DropoutPlaceholder \<Longrightarrow>
   train_feed_dict (fill_feed_dicts self phd base tm vm sm) DropoutPlaceholder
     = Some (DropoutValue 0) \<and>
   validation_feed_dict (fill_feed_dicts self phd base tm vm sm) DropoutPlaceholder
     = base DropoutPlaceholder \<and>
   test_feed_dict (fill_feed_dicts self phd base tm vm sm) DropoutPlaceholder
     = base DropoutPlaceholder"
  by (simp add: fill_feed_dicts_def Let_def)

lemma fold_supports_no_dropout:
  "(\<forall>i \<in> set ks. ps ! i \<noteq> DropoutPlaceholder) \<Longrightarrow>
   fold (\<lambda>i feed. feed(ps ! i \<mapsto> supports ! i)) ks m DropoutPlaceholder = m DropoutPlaceholder"
  by (induction ks arbitrary: m) auto

lemma base_feed_dict_no_dropout:
  "n = length supports \<Longrightarrow>
   get_base_feed_dict (placeholder_inputs sp fs ls n) labels features supports
     DropoutPlaceholder = None"
  by (simp add: get_base_feed_dict_def placeholder_inputs_def fold_supports_no_dropout)

text \<open>
  Whenever \<^verbatim>\<open>_populate_feed_dicts\<close> returns, the training feed dict feeds the dropout 0,
  and the validation and test feed dicts have no entry for the dropout placeholder.
\<close>

lemma populate_feed_dicts_dropout:
  assumes "populate_feed_dicts eigsh random_shuffle self dataset_splits = Inr self'"
  shows "train_feed_dict self' DropoutPlaceholder = Some (DropoutValue 0) \<and>
         validation_feed_dict self' DropoutPlaceholder = None \<and>
         test_feed_dict self' DropoutPlaceholder = None"
proof -
  from assms obtain s phd base tm vm sm supports supports' sp fs ls labels features where
    self': "self' = fill_feed_dicts s phd base tm vm sm" and
    phd: "phd = placeholder_inputs sp fs ls (length supports)" and
    base: "base = get_base_feed_dict phd labels features supports'" and
    seq: "sequence (map support_to_sparse_tensor supports) = Inr supports'"
    by (auto simp: populate_feed_dicts_def Let_def
        split: sum.splits option.splits list.splits prod.splits)
  have len: "length supports = length supports'"
    using sequence_length [OF seq] by simp
  have none: "base DropoutPlaceholder = None"
    unfolding base phd by (rule base_feed_dict_no_dropout [OF len])
  have "MASK phd = MaskPlaceholder" "DROPOUT phd = DropoutPlaceholder"
    by (simp_all add: phd placeholder_inputs_def)
  then show ?thesis
    using dropout_after_fill [of phd s base tm vm sm] none by (simp add: self')
qed

text \<open>
  Claim C2, at a failing input. The claim promises the configured dropout in the
  training feed dict and 0.0 in the validation and test feed dicts. For the pipeline
  \<open>example_pipeline\<close>, whose configured dropout is 0.5, the source leaves the dropout 0
  in the training feed dict and no dropout entry in the other two: lines 84 and 88
  assign to \<^verbatim>\<open>self.train_feed_dict\<close>.
\<close>

theorem populate_feed_dicts_dropout_example:
  "map_sum id (\<lambda>self. (train_feed_dict self DropoutPlaceholder,
                         validation_feed_dict self DropoutPlaceholder,
                         test_feed_dict self DropoutPlaceholder))
     (populate_feed_dicts (\<lambda>L. Inr 2) id example_pipeline [1200, 500, 1000])
   = Inr (Some (DropoutValue 0), None, None)"
  by (simp add: populate_feed_dicts_def normalise_splits_default compute_supports_def
      float64_two_1200 float64_two_500 float64_two_1000
      example_pipeline_def network_graph_def init_graph_def transform_adj_def
      renormalization_trick_def finite_renormalization_def row_sum_def path_adj_def add_m_def
      get_identity_def upt2 Let_def nnz_def index_rows_def take_rows_def
      features_to_sparse_tensor_def support_to_sparse_tensor_def split_indices_def py_int_def
      arange_def placeholder_inputs_def get_base_feed_dict_def map_indices_to_mask_def
      fill_feed_dicts_def)

subsection \<open>The Chebyshev polynomials\<close>

lemma length_fold_chebyshev_step:
  "length (fold (chebyshev_step X) ks Tk) = length Tk + length ks"
  by (induction ks arbitrary: Tk) (simp_all add: chebyshev_step_def)

lemma chebyshev_shape:
  assumes "compute_chebyshev_polynomial eigsh adj degree = Inr Tk"
  shows "\<exists>X. Tk = fold (chebyshev_step X) [2..degree] [get_identity (msize adj), X]"
  using assms
  by (auto simp: compute_chebyshev_polynomial_def Let_def split: sum.splits option.splits)

text \<open>The list has \<open>degree + 1\<close> elements from degree 1 on, and two elements below.\<close>

lemma chebyshev_length:
  assumes "compute_chebyshev_polynomial eigsh adj degree = Inr Tk"
  shows "length Tk = (if degree < 1 then 2 else nat degree + 1)"
proof -
  obtain X where "Tk = fold (chebyshev_step X) [2..degree] [get_identity (msize adj), X]"
    using chebyshev_shape [OF assms] by blast
  then show ?thesis
    by (auto simp: length_fold_chebyshev_step)
qed

lemma fold_chebyshev_step_snoc:
  "fold (chebyshev_step X) (ks @ [k]) Tk =
     fold (chebyshev_step X) ks Tk @
       [compute_chebyshev_recurrence (last (fold (chebyshev_step X) ks Tk))
          (last (butlast (fold (chebyshev_step X) ks Tk))) X]"
  by (simp add: chebyshev_step_def)

lemma fold_chebyshev_step_nth:
  assumes "2 \<le> length Tk"
  shows "take (length Tk) (fold (chebyshev_step X) ks Tk) = Tk \<and>
         (\<forall>i. length Tk \<le> i \<and> i < length (fold (chebyshev_step X) ks Tk) \<longrightarrow>
            fold (chebyshev_step X) ks Tk ! i =
              compute_chebyshev_recurrence (fold (chebyshev_step X) ks Tk ! (i - 1))
                (fold (chebyshev_step X) ks Tk ! (i - 2)) X)"
proof (induction ks rule: rev_induct)
  case Nil
  then show ?case by auto
next
  case (snoc k ks)
  let ?R = "fold (chebyshev_step X) ks Tk"
  let ?new = "compute_chebyshev_recurrence (last ?R) (last (butlast ?R)) X"
  have len: "length ?R = length Tk + length ks"
    by (rule length_fold_chebyshev_step)
  have step: "fold (chebyshev_step X) (ks @ [k]) Tk = ?R @ [?new]"
    by (rule fold_chebyshev_step_snoc)
  have long: "2 \<le> length ?R"
    using assms len by simp
  then have "?R \<noteq> []"
    by auto
  then have last1: "last ?R = ?R ! (length ?R - 1)"
    by (rule last_conv_nth)
  have "butlast ?R \<noteq> []"
    using long by (cases ?R rule: rev_cases) auto
  then have "last (butlast ?R) = butlast ?R ! (length (butlast ?R) - 1)"
    by (rule last_conv_nth)
  moreover have "butlast ?R ! (length ?R - 2) = ?R ! (length ?R - 2)"
    using long by (simp add: nth_butlast)
  moreover have "length (butlast ?R) - 1 = length ?R - 2"
    by simp
  ultimately have last2: "last (butlast ?R) = ?R ! (length ?R - 2)"
    by simp
  have IH1: "take (length Tk) ?R = Tk"
    and IH2: "\<forall>i. length Tk \<le> i \<and> i < length ?R \<longrightarrow>
            ?R ! i = compute_chebyshev_recurrence (?R ! (i - 1)) (?R ! (i - 2)) X"
    using snoc.IH by blast+
  have prefix: "take (length Tk) (?R @ [?new]) = Tk"
    using IH1 len by simp
  have rec: "(?R @ [?new]) ! i =
      compute_chebyshev_recurrence ((?R @ [?new]) ! (i - 1)) ((?R @ [?new]) ! (i - 2)) X"
    if "length Tk \<le> i" "i < length (?R @ [?new])" for i
  proof (cases "i < length ?R")
    case True
    then have app: "(?R @ [?new]) ! i = ?R ! i" "(?R @ [?new]) ! (i - 1) = ?R ! (i - 1)"
      "(?R @ [?new]) ! (i - 2) = ?R ! (i - 2)"
      by (simp_all add: nth_append)
    have "?R ! i = compute_chebyshev_recurrence (?R ! (i - 1)) (?R ! (i - 2)) X"
      using IH2 that(1) True by blast
    then show ?thesis
      by (simp only: app)
  next
    case False
    then have "i = length ?R"
      using that by simp
    then have "(?R @ [?new]) ! i = ?new" "(?R @ [?new]) ! (i - 1) = ?R ! (length ?R - 1)"
      "(?R @ [?new]) ! (i - 2) = ?R ! (length ?R - 2)"
      using long by (simp_all add: nth_append)
    then show ?thesis
      by (simp only: last1 last2)
  qed
  show ?case
    unfolding step using prefix rec by blast
qed

text \<open>
  Whenever the function returns, its list starts with the identity and the scaled
  Laplacian \<open>X\<close>, and every later element follows the three-term recurrence.
\<close>

lemma chebyshev_recurrence:
  assumes "compute_chebyshev_polynomial eigsh adj degree = Inr Tk"
  shows "\<exists>X. Tk ! 0 = get_identity (msize adj) \<and> Tk ! 1 = X \<and>
           (\<forall>i. 2 \<le> i \<and> i < length Tk \<longrightarrow>
              Tk ! i = compute_chebyshev_recurrence (Tk ! (i - 1)) (Tk ! (i - 2)) X)"
proof -
  obtain X where Tk: "Tk = fold (chebyshev_step X) [2..degree] [get_identity (msize adj), X]"
    using chebyshev_shape [OF assms] by blast
  let ?T0 = "[get_identity (msize adj), X]"
  have props: "take (length ?T0) Tk = ?T0 \<and>
         (\<forall>i. length ?T0 \<le> i \<and> i < length Tk \<longrightarrow>
            Tk ! i = compute_chebyshev_recurrence (Tk ! (i - 1)) (Tk ! (i - 2)) X)"
    unfolding Tk by (rule fold_chebyshev_step_nth) simp
  then have take2: "take 2 Tk = ?T0"
    by (simp add: numeral_2_eq_2)
  have "Tk ! 0 = take 2 Tk ! 0" "Tk ! 1 = take 2 Tk ! 1"
    by simp_all
  then have "Tk ! 0 = get_identity (msize adj)" "Tk ! 1 = X"
    by (simp_all add: take2)
  then show ?thesis
    using props by auto
qed

text \<open>
  Claim C3, at a failing input. The claim promises \<open>degree + 1\<close> matrices for every
  degree from 0 on, and the single matrix \<open>[I]\<close> for degree 0. For the path of two
  nodes, whose normalized Laplacian \<open>[[1, -1], [-1, 1]]\<close> has the largest eigenvalue 2,
  and degree 0 the source returns two matrices: the identity and the scaled Laplacian
  \<open>[[0, -1], [-1, 0]]\<close>. The list is initialised with both before the loop.
\<close>

theorem chebyshev_degree_zero:
  "map_sum id (map show_matrix) (compute_chebyshev_polynomial (\<lambda>L. Inr 2) path_adj 0)
   = Inr [[[1, 0], [0, 1]], [[0, - 1], [- 1, 0]]]"
  by (simp add: compute_chebyshev_polynomial_def renormalization_trick_def
      finite_renormalization_def row_sum_def path_adj_def diags_def dot_def transpose_m_def
      np_power_neg_half_def Let_def upt2 show_matrix_def sub_m_def scale_m_def get_identity_def
      div_scalar_def)

subsection \<open>The masked loss\<close>

lemma tf_add_NaN_right: "tf_add a NaN = NaN"
  by (cases a) simp_all

lemma reduce_sum_NaN: "NaN \<in> set xs \<Longrightarrow> reduce_sum xs = NaN"
  by (induction xs) (auto simp: reduce_sum_def tf_add_NaN_right)

lemma reduce_sum_Finite: "reduce_sum (map Finite xs) = Finite (sum_list xs)"
  by (induction xs) (simp_all add: reduce_sum_def)

lemma reduce_sum_zero_dense: "reduce_sum (map2 tf_mul L (map (\<lambda>i. Finite 0) ks)) = Finite 0"
proof (induction L arbitrary: ks)
  case Nil
  then show ?case by (simp add: reduce_sum_def)
next
  case (Cons x L)
  then show ?case by (cases ks) (simp_all add: reduce_sum_def)
qed

lemma map_of_map_value:
  "map_of (map (\<lambda>(i, v). (i, f v)) es) i = map_option f (map_of es i)"
  by (induction es) auto

text \<open>The division of a sparse tensor by a scalar other than zero asks no kernel.\<close>

lemma sparse_div_nonzero:
  assumes "c \<noteq> 0"
  shows "sparse_div div_by_zero t c =
     Inr \<lparr>st_entries = map (\<lambda>(i, v). (i, Finite (v / c))) (st_entries t),
          st_dense_shape = st_dense_shape t\<rparr>"
proof -
  have "map (\<lambda>(i, v). case (if c = 0 then div_by_zero v else Inr (Finite (v / c))) of
                Inl e \<Rightarrow> Inl e
              | Inr q \<Rightarrow> Inr (i, q)) (st_entries t)
      = map (\<lambda>x. Inr (case x of (i, v) \<Rightarrow> (i, Finite (v / c)))) (st_entries t)"
    using assms by (simp add: case_prod_unfold)
  then show ?thesis
    unfolding sparse_div_def by (simp only: sequence_map_Inr_fun sum.case)
qed

text \<open>
  The division of a mask whose stored values are all zero by zero: the answer of the
  kernel for \<open>0 / 0\<close> at every stored position.
\<close>

lemma zero_entries_map:
  "list_all (\<lambda>(i, v). v = 0) es \<Longrightarrow>
   map (\<lambda>(i, v). case div_by_zero v of Inl e \<Rightarrow> Inl e | Inr q \<Rightarrow> Inr (i, q)) es
     = map (\<lambda>x. case div_by_zero (0::real) of Inl e \<Rightarrow> Inl e | Inr q \<Rightarrow> Inr (fst x, q)) es"
  by (induction es) (auto split: sum.splits)

lemma sparse_div_zero_raises:
  assumes "list_all (\<lambda>(i, v). v = 0) (st_entries t)" "st_entries t \<noteq> []"
    and "div_by_zero 0 = Inl e"
  shows "sparse_div div_by_zero t 0 = Inl e"
  unfolding sparse_div_def
  by (simp add: zero_entries_map [OF assms(1)] assms(3) sequence_map_Inl [OF assms(2)])

lemma sparse_div_zero_answers:
  assumes "list_all (\<lambda>(i, v). v = 0) (st_entries t)"
    and "div_by_zero 0 = Inr q"
  shows "sparse_div div_by_zero t 0 =
     Inr \<lparr>st_entries = map (\<lambda>x. (fst x, q)) (st_entries t), st_dense_shape = st_dense_shape t\<rparr>"
  unfolding sparse_div_def
  by (simp add: zero_entries_map [OF assms(1)] assms(2) sequence_map_Inr_fun)

lemma sparse_div_empty:
  assumes "st_entries t = []"
  shows "sparse_div div_by_zero t c = Inr \<lparr>st_entries = [], st_dense_shape = st_dense_shape t\<rparr>"
  by (simp add: sparse_div_def assms)

lemma length_mask_vector: "length (mask_vector t) = st_dense_shape t"
  by (simp add: mask_vector_def)

lemma dense_nonzero_sum:
  assumes "valid_indices t" "c \<noteq> 0"
  shows "sparse_tensor_to_dense
           \<lparr>st_entries = map (\<lambda>(i, v). (i, Finite (v / c))) (st_entries t),
            st_dense_shape = st_dense_shape t\<rparr>
       = Inr (map (\<lambda>v. Finite (v / c)) (mask_vector t))"
proof -
  have "(case map_of (map (\<lambda>(i, v). (i, Finite (v / c))) (st_entries t)) i of
           None \<Rightarrow> Finite 0 | Some v \<Rightarrow> v)
      = Finite ((case map_of (st_entries t) i of None \<Rightarrow> 0 | Some v \<Rightarrow> v) / c)" for i
    by (simp add: map_of_map_value split: option.splits)
  then show ?thesis
    using \<open>valid_indices t\<close>
    by (simp add: sparse_tensor_to_dense_def valid_indices_def mask_vector_def comp_def
        case_prod_unfold)
qed

lemma sum_list_map2_div:
  "length xs = length ys \<Longrightarrow>
   sum_list (map2 (\<lambda>x y. x * (y / c)) xs ys) = sum_list (map2 (*) xs ys) / (c::real)"
  by (induction xs ys rule: list_induct2) (simp_all add: add_divide_distrib)

lemma map2_tf_mul_Finite:
  "length xs = length ys \<Longrightarrow>
   map2 tf_mul xs (map (\<lambda>v. Finite (g v)) ys) = map Finite (map2 (\<lambda>x y. x * g y) xs ys)"
  by (induction xs ys rule: list_induct2) simp_all

lemma sum_list_zero: "list_all (\<lambda>(i, v). v = (0::real)) es \<Longrightarrow> sum_list (map snd es) = 0"
  by (induction es) auto

text \<open>
  With a valid mask of the shape of the loss and a mask sum other than zero, the masked
  loss is the sum of loss times mask, divided by the sum of the mask, whatever the
  kernel does with a zero divisor.
\<close>

lemma masked_loss_nonzero:
  assumes valid: "valid_indices (bm_mask self)"
    and shape: "st_dense_shape (bm_mask self) = length L"
    and nonzero: "sparse_reduce_sum (bm_mask self) \<noteq> 0"
  shows "compute_masked_loss div_by_zero self L =
     Inr (Finite (sum_list (map2 (*) L (mask_vector (bm_mask self)))
                    / sparse_reduce_sum (bm_mask self)))"
proof -
  let ?S = "sparse_reduce_sum (bm_mask self)"
  let ?M = "mask_vector (bm_mask self)"
  have len: "length L = length ?M"
    by (simp add: length_mask_vector shape)
  have mult: "multiply L (map (\<lambda>v. Finite (v / ?S)) ?M)
      = Inr (map Finite (map2 (\<lambda>x y. x * (y / ?S)) L ?M))"
    using len by (simp add: multiply_def map2_tf_mul_Finite)
  have "compute_masked_loss div_by_zero self L
      = Inr (reduce_sum (map Finite (map2 (\<lambda>x y. x * (y / ?S)) L ?M)))"
    by (simp add: compute_masked_loss_def sparse_div_nonzero [OF nonzero]
        dense_nonzero_sum [OF valid nonzero] mult)
  also have "\<dots> = Inr (Finite (sum_list (map2 (*) L ?M) / ?S))"
    using len by (simp only: reduce_sum_Finite sum_list_map2_div)
  finally show ?thesis .
qed

lemma wce_example:
  "weighted_cross_entropy_with_logits [1, 0] [0, 0] 1 = Inr [ln 2, ln 2]"
  by (simp add: weighted_cross_entropy_with_logits_def sigmoid_def ln_div)

text \<open>The masked loss of a mask that stores nothing is 0: nothing is divided.\<close>

lemma masked_loss_empty:
  assumes "st_entries (bm_mask self) = []"
    and "st_dense_shape (bm_mask self) = length L"
  shows "compute_masked_loss div_by_zero self L = Inr (Finite 0)"
proof -
  have "sparse_tensor_to_dense
          \<lparr>st_entries = [], st_dense_shape = st_dense_shape (bm_mask self)\<rparr>
      = Inr (map (\<lambda>i. Finite 0) [0..<length L])"
    by (simp add: sparse_tensor_to_dense_def valid_indices_def assms(2))
  then show ?thesis
    by (simp add: compute_masked_loss_def sparse_div_empty [OF assms(1)] multiply_def
        reduce_sum_zero_dense)
qed

text \<open>
  The masked loss of a mask that stores zeros, when the kernel answers \<^verbatim>\<open>nan\<close> for
  \<open>0 / 0\<close>: \<^verbatim>\<open>nan\<close>.
\<close>

lemma masked_loss_zero_nan:
  assumes valid: "valid_indices (bm_mask self)"
    and shape: "st_dense_shape (bm_mask self) = length L"
    and zero: "list_all (\<lambda>(i, v). v = 0) (st_entries (bm_mask self))"
    and nonempty: "st_entries (bm_mask self) \<noteq> []"
    and kernel: "div_by_zero 0 = Inr NaN"
  shows "compute_masked_loss div_by_zero self L = Inr NaN"
proof -
  let ?es = "st_entries (bm_mask self)"
  let ?n = "st_dense_shape (bm_mask self)"
  let ?q = "\<lparr>st_entries = map (\<lambda>x. (fst x, NaN)) ?es, st_dense_shape = ?n\<rparr>"
  define dense where
    "dense = map (\<lambda>i. case map_of (map (\<lambda>x. (fst x, NaN)) ?es) i of
                         None \<Rightarrow> Finite 0 | Some v \<Rightarrow> v) [0..<?n]"
  have S: "sparse_reduce_sum (bm_mask self) = 0"
    using zero by (simp add: sparse_reduce_sum_def sum_list_zero)
  have div: "sparse_div div_by_zero (bm_mask self) 0 = Inr ?q"
    by (rule sparse_div_zero_answers [where div_by_zero = div_by_zero, OF zero kernel])
  have "valid_indices ?q"
    using valid by (simp add: valid_indices_def comp_def)
  then have dense: "sparse_tensor_to_dense ?q = Inr dense"
    by (simp add: sparse_tensor_to_dense_def dense_def)
  have len: "length L = length dense"
    by (simp add: dense_def shape)
  then have masked: "compute_masked_loss div_by_zero self L = Inr (reduce_sum (map2 tf_mul L dense))"
    by (simp add: compute_masked_loss_def S div dense multiply_def)
  obtain i v where iv: "(i, v) \<in> set ?es"
    using nonempty by (cases ?es) auto
  then have i: "i < ?n"
    using valid by (auto simp: valid_indices_def list_all_iff)
  have "(i, NaN) \<in> set (map (\<lambda>x. (fst x, NaN)) ?es)"
    using iv by force
  moreover have "\<And>k w. (k, w) \<in> set (map (\<lambda>x. (fst x, NaN)) ?es) \<Longrightarrow> w = NaN"
    by auto
  ultimately have "map_of (map (\<lambda>x. (fst x, NaN)) ?es) i = Some NaN"
    by (metis map_of_SomeD weak_map_of_SomeI)
  then have "dense ! i = NaN"
    using i by (simp add: dense_def)
  then have "map2 tf_mul L dense ! i = NaN"
    using i len shape by simp
  moreover have "i < length (map2 tf_mul L dense)"
    using i len shape by simp
  ultimately have "NaN \<in> set (map2 tf_mul L dense)"
    by (metis nth_mem)
  then have "reduce_sum (map2 tf_mul L dense) = NaN"
    by (rule reduce_sum_NaN)
  then show ?thesis
    by (simp add: masked)
qed

lemma masked_loss_zero_raises:
  assumes zero: "list_all (\<lambda>(i, v). v = 0) (st_entries (bm_mask self))"
    and nonempty: "st_entries (bm_mask self) \<noteq> []"
    and kernel: "div_by_zero 0 = Inl e"
  shows "compute_masked_loss div_by_zero self L = Inl e"
proof -
  have S: "sparse_reduce_sum (bm_mask self) = 0"
    using zero by (simp add: sparse_reduce_sum_def sum_list_zero)
  show ?thesis
    by (simp add: compute_masked_loss_def S
        sparse_div_zero_raises [where div_by_zero = div_by_zero, OF zero nonempty kernel])
qed

text \<open>
  Claim C4 as stated fails: in validation mode, with a mask of two positions that
  stores no entry (its dense vector is all zeros and its sum is zero), the loss operator
  raises nothing and returns 0, with the kernel that follows IEEE and with the kernel
  that raises on a zero divisor alike.
\<close>

theorem loss_op_empty_mask_no_error:
  "mask_vector (bm_mask empty_mask_model) = [0, 0] \<and>
   sparse_reduce_sum (bm_mask empty_mask_model) = 0 \<and>
   loss_op ieee_div_by_zero empty_mask_model = Inr (Finite 0) \<and>
   loss_op raising_div_by_zero empty_mask_model = Inr (Finite 0)"
  by (simp add: empty_mask_model_def zero_mask_model_def mask_vector_def sparse_reduce_sum_def
      loss_op_def wce_example masked_loss_empty upt2)

text \<open>
  Claim C4, amended. In eval (non-train) mode, when the mask is all zeros, the masked
  loss computation has no guard of its own on the division by the mask sum. For a valid
  mask of the shape of the labels whose stored values are all zero: when the mask
  stores no entry the loss operator returns 0 and raises nothing; when it stores
  entries the outcome is the answer of TensorFlow's division kernel for \<open>0 / 0\<close>: the
  error of the kernel if it raises one, and \<^verbatim>\<open>nan\<close> if it answers \<^verbatim>\<open>nan\<close>.
\<close>

theorem loss_op_zero_mask_unguarded:
  assumes eval: "bm_mode self \<noteq> TRAIN"
    and same: "length (bm_labels self) = length (bm_outputs self)"
    and valid: "valid_indices (bm_mask self)"
    and shape: "st_dense_shape (bm_mask self) = length (bm_labels self)"
    and zero: "list_all (\<lambda>(i, v). v = 0) (st_entries (bm_mask self))"
  shows "(st_entries (bm_mask self) = [] \<longrightarrow> loss_op div_by_zero self = Inr (Finite 0)) \<and>
         (st_entries (bm_mask self) \<noteq> [] \<and> div_by_zero 0 = Inl e \<longrightarrow>
            loss_op div_by_zero self = Inl e) \<and>
         (st_entries (bm_mask self) \<noteq> [] \<and> div_by_zero 0 = Inr NaN \<longrightarrow>
            loss_op div_by_zero self = Inr NaN)"
proof -
  obtain L where L: "weighted_cross_entropy_with_logits (bm_labels self) (bm_outputs self)
      (positive_sample_weight self) = Inr L" and lenL: "st_dense_shape (bm_mask self) = length L"
    using same shape by (simp add: weighted_cross_entropy_with_logits_def)
  have loss: "loss_op div_by_zero self
      = (case compute_masked_loss div_by_zero self L of
           Inl e \<Rightarrow> Inl e
         | Inr loss \<Rightarrow> Inr (tf_mul (normalisation_constant self) loss))"
    using eval by (simp add: loss_op_def L)
  show ?thesis
    by (simp add: loss masked_loss_empty [OF _ lenL] masked_loss_zero_raises [OF zero]
        masked_loss_zero_nan [OF valid lenL zero])
qed

theorem loss_op_zero_mask_unguarded_witness:
  "loss_op raising_div_by_zero empty_mask_model = Inr (Finite 0) \<and>
   loss_op raising_div_by_zero zero_mask_model = Inl InvalidArgumentError \<and>
   loss_op ieee_div_by_zero zero_mask_model = Inr NaN"
  using loss_op_zero_mask_unguarded [where self = empty_mask_model
      and div_by_zero = raising_div_by_zero]
    loss_op_zero_mask_unguarded [where self = zero_mask_model
      and div_by_zero = raising_div_by_zero and e = InvalidArgumentError]
    loss_op_zero_mask_unguarded [where self = zero_mask_model
      and div_by_zero = ieee_div_by_zero]
  by (simp add: zero_mask_model_def empty_mask_model_def valid_indices_def
      raising_div_by_zero_def ieee_div_by_zero_def tf_div_def)

subsection \<open>The weights of the edges\<close>

text \<open>The unweighted branch stores the weight 1.0 for every edge.\<close>

lemma read_network_unweighted_ones:
  assumes "read_network cast_overflow self (TwoColumns rows) = Inr (adj, self')"
  shows "list_all (\<lambda>(i, j, w). w = 1) (coo_data adj) \<and> length (coo_data adj) = length rows"
proof -
  from assms obtain es where es: "unweighted_edges cast_overflow (node_to_id_map self) rows = Inr es"
    and adj: "coo_data adj = map (\<lambda>(i, j, w). (nat i, nat j, w)) es"
    by (auto simp: read_network_def make_coo_def Let_def
        split: option.splits if_splits sum.splits)
  from es obtain ps where ps: "sequence (map (\<lambda>(a, b).
              case int32_id cast_overflow (map_of (node_to_id_map self) a) of
                Inl e \<Rightarrow> Inl e
              | Inr i \<Rightarrow> (case int32_id cast_overflow (map_of (node_to_id_map self) b) of
                             Inl e \<Rightarrow> Inl e
                           | Inr j \<Rightarrow> Inr (i, j))) rows) = Inr ps"
    and map: "es = map (\<lambda>(i, j). (i, j, 1)) ps"
    by (auto simp: unweighted_edges_def split: sum.splits)
  have "length ps = length rows"
    using sequence_length [OF ps] by simp
  then show ?thesis
    by (auto simp: adj map list_all_iff)
qed

lemma read_network_unweighted_example:
  "map_sum id (coo_data \<circ> fst)
     (read_network cast_overflow network_graph (TwoColumns [(''a'', ''b''), (''b'', ''a'')]))
   = Inr [(0, 1, 1), (1, 0, 1)]"
  by (simp add: read_network_def network_graph_def init_graph_def edge_rows_def
      unweighted_edges_def int32_id_def to_int32_def py_int_def make_coo_def Let_def)

text \<open>
  Claim C5, at a failing input. The claim promises the parsed float of the third column,
  neither rounded nor truncated. For the edge file with the lines \<open>a b 0.5\<close> and
  \<open>b a 2.7\<close> the source stores the weights 0 and 2: the triples go through an array of
  \<^verbatim>\<open>dtype=np.int32\<close>.
\<close>

theorem read_network_truncates_weights:
  "map_sum id (coo_data \<circ> fst)
     (read_network cast_overflow network_graph
        (ThreeColumns [(''a'', ''b'', 1 / 2), (''b'', ''a'', 27 / 10)]))
   = Inr [(0, 1, 0), (1, 0, 2)]"
  by (simp add: read_network_def network_graph_def init_graph_def edge_rows_def
      weighted_edges_def getitem_def to_int32_def py_int_def make_coo_def Let_def
      float32_0 float32_2)

subsection \<open>The assertions of \<^verbatim>\<open>read_labels\<close>\<close>

lemma update_fresh: "k \<notin> fst ` set d \<Longrightarrow> AList.update k v d = d @ [(k, v)]"
  by (induction d) auto

lemma fold_update_fresh:
  "distinct (map fst ps) \<Longrightarrow> fst ` set ps \<inter> fst ` set d = {} \<Longrightarrow>
   fold (\<lambda>(k, v) r. AList.update k v r) ps d = d @ ps"
proof (induction ps arbitrary: d)
  case Nil
  then show ?case by simp
next
  case (Cons p ps)
  obtain k v where p: "p = (k, v)" by (cases p)
  have fresh: "k \<notin> fst ` set d"
    using Cons.prems(2) p by auto
  have "fst ` set ps \<inter> fst ` set (d @ [(k, v)]) = {}"
    using Cons.prems p by (auto simp: image_iff)
  then have "fold (\<lambda>(k, v) r. AList.update k v r) ps (d @ [(k, v)]) = (d @ [(k, v)]) @ ps"
    using Cons.IH Cons.prems(1) by simp
  then show ?case
    by (simp add: p update_fresh [OF fresh])
qed

lemma enumerate_dict_distinct:
  assumes "distinct xs"
  shows "enumerate_dict xs = map prod.swap (List.enumerate 0 xs)"
proof -
  have "enumerate_dict xs
      = fold (\<lambda>(k, v) r. AList.update k v r) (map prod.swap (List.enumerate 0 xs)) []"
    by (simp add: enumerate_dict_def fold_map comp_def case_prod_unfold)
  moreover have "map fst (map prod.swap (List.enumerate 0 xs)) = xs"
    by (simp add: comp_def)
  ultimately show ?thesis
    using assms by (simp add: fold_update_fresh del: map_map)
qed


lemma distinct_iter_set: "distinct (iter_set h xs)" and set_iter_set: "set (iter_set h xs) = set xs"
  by (simp_all add: iter_set_def)




lemma map_of_enumerate_dict_inj:
  assumes "map_of (enumerate_dict (iter_set h xs)) x = Some i"
    and "map_of (enumerate_dict (iter_set h xs)) y = Some i"
  shows "x = y"
proof -
  let ?L = "iter_set h xs"
  have d: "enumerate_dict ?L = map prod.swap (List.enumerate 0 ?L)"
    by (rule enumerate_dict_distinct [OF distinct_iter_set])
  from assms have "(x, i) \<in> set (enumerate_dict ?L)" "(y, i) \<in> set (enumerate_dict ?L)"
    by (auto dest: map_of_SomeD)
  then have "(i, x) \<in> set (List.enumerate 0 ?L)" "(i, y) \<in> set (List.enumerate 0 ?L)"
    by (auto simp: d)
  then show ?thesis
    by (auto simp: in_set_enumerate_eq)
qed





lemma getitem_enumerate_dict:
  assumes "x \<in> set xs"
  shows "\<exists>i. getitem (enumerate_dict (iter_set h xs)) x = Inr i"
proof -
  have "map fst (enumerate_dict (iter_set h xs)) = iter_set h xs"
    by (simp add: enumerate_dict_distinct distinct_iter_set comp_def)
  then have "x \<in> fst ` set (enumerate_dict (iter_set h xs))"
    using assms by (metis set_iter_set set_map)
  then have "map_of (enumerate_dict (iter_set h xs)) x \<noteq> None"
    by (simp add: map_of_eq_None_iff)
  then show ?thesis
    by (auto simp: getitem_def)
qed

lemma getitem_Inr: "getitem d k = Inr i \<Longrightarrow> map_of d k = Some i"
  by (simp add: getitem_def split: option.splits)

text \<open>
  The ids of the rows of a label file: every row has them (no \<^verbatim>\<open>KeyError\<close>), and there
  are as many node ids as distinct nodes and as many label ids as distinct labels.
\<close>

lemma row_ids:
  fixes data :: "(string \<times> string) list" and h :: "string \<Rightarrow> nat"
  defines "n2i \<equiv> enumerate_dict (iter_set h (map fst data))"
    and "l2i \<equiv> enumerate_dict (iter_set h (map snd data))"
  shows "\<exists>pairs. sequence (map (\<lambda>row.
                case getitem n2i (fst row) of
                  Inl e \<Rightarrow> Inl e
                | Inr node \<Rightarrow> (case getitem l2i (snd row) of
                                  Inl e \<Rightarrow> Inl e
                                | Inr label \<Rightarrow> Inr (node, label))) data) = Inr pairs \<and>
            card (fst ` set pairs) = card (fst ` set data) \<and>
            card (snd ` set pairs) = card (snd ` set data)"
proof -
  let ?f = "\<lambda>row. case getitem n2i (fst row) of
                  Inl e \<Rightarrow> Inl e
                | Inr node \<Rightarrow> (case getitem l2i (snd row) of
                                  Inl e \<Rightarrow> Inl e
                                | Inr label \<Rightarrow> Inr (node, label))"
  let ?n = "\<lambda>x. the (map_of n2i x)" and ?l = "\<lambda>x. the (map_of l2i x)"
  have row: "?f row = Inr (?n (fst row), ?l (snd row))" if "row \<in> set data" for row
  proof -
    have mem: "fst row \<in> set (map fst data)" "snd row \<in> set (map snd data)"
      using that by simp_all
    obtain i where i: "getitem n2i (fst row) = Inr i"
      using getitem_enumerate_dict [OF mem(1), of h] unfolding n2i_def by blast
    obtain j where j: "getitem l2i (snd row) = Inr j"
      using getitem_enumerate_dict [OF mem(2), of h] unfolding l2i_def by blast
    show ?thesis
      by (simp add: i j getitem_Inr [OF i] getitem_Inr [OF j])
  qed
  then have "\<exists>v. ?f row = Inr v" if "row \<in> set data" for row
    using that by blast
  then obtain pairs where pairs: "sequence (map ?f data) = Inr pairs"
    using sequence_Inr [of data ?f] by blast
  have "map Inr pairs = map ?f data"
    using sequence_map_Inr [OF pairs] by simp
  also have "\<dots> = map (\<lambda>row. Inr (?n (fst row), ?l (snd row))) data"
    using row by (simp cong: map_cong)
  also have "\<dots> = map Inr (map (\<lambda>row. (?n (fst row), ?l (snd row))) data)"
    by simp
  finally have eq: "pairs = map (\<lambda>row. (?n (fst row), ?l (snd row))) data"
    by (simp add: inj_map_eq_map del: map_map)
  have some_n: "\<exists>i. map_of n2i x = Some i" if "x \<in> fst ` set data" for x
  proof -
    have "x \<in> set (map fst data)" using that by simp
    then show ?thesis
      using getitem_enumerate_dict [of x "map fst data" h] unfolding n2i_def
      by (blast dest: getitem_Inr)
  qed
  have some_l: "\<exists>i. map_of l2i x = Some i" if "x \<in> snd ` set data" for x
  proof -
    have "x \<in> set (map snd data)" using that by simp
    then show ?thesis
      using getitem_enumerate_dict [of x "map snd data" h] unfolding l2i_def
      by (blast dest: getitem_Inr)
  qed
  have inj_n: "inj_on ?n (fst ` set data)"
  proof (rule inj_onI)
    fix x y assume "x \<in> fst ` set data" "y \<in> fst ` set data" "?n x = ?n y"
    then show "x = y"
      using some_n [of x] some_n [of y] map_of_enumerate_dict_inj [of h "map fst data" x _ y]
      by (auto simp: n2i_def)
  qed
  have inj_l: "inj_on ?l (snd ` set data)"
  proof (rule inj_onI)
    fix x y assume "x \<in> snd ` set data" "y \<in> snd ` set data" "?l x = ?l y"
    then show "x = y"
      using some_l [of x] some_l [of y] map_of_enumerate_dict_inj [of h "map snd data" x _ y]
      by (auto simp: l2i_def)
  qed
  have "fst ` set pairs = ?n ` (fst ` set data)" "snd ` set pairs = ?l ` (snd ` set data)"
    by (simp_all add: eq image_image)
  then have "card (fst ` set pairs) = card (fst ` set data)"
    "card (snd ` set pairs) = card (snd ` set data)"
    using inj_n inj_l by (simp_all add: card_image)
  with pairs show ?thesis
    by blast
qed



text \<open>From such a graph no file makes \<^verbatim>\<open>read_labels\<close> fail an assertion.\<close>

lemma read_labels_never_asserts:
  assumes "length (id_to_node_map self) = length (node_to_label_map self)"
    and "length (id_to_label_map self) = length (label_to_node_map self)"
  shows "read_labels h self lines \<noteq> Inl (AssertionError msg)"
proof (cases "label_data lines")
  case (Inl e)
  then have "e = IndexError"
    by (simp add: label_data_def split: list.splits prod.splits if_splits)
  then show ?thesis
    by (simp add: read_labels_def Inl)
next
  case (Inr data)
  obtain pairs where "sequence (map (\<lambda>row.
                case getitem (enumerate_dict (iter_set h (map fst data))) (fst row) of
                  Inl e \<Rightarrow> Inl e
                | Inr node \<Rightarrow> (case getitem (enumerate_dict (iter_set h (map snd data))) (snd row) of
                                  Inl e \<Rightarrow> Inl e
                                | Inr label \<Rightarrow> Inr (node, label))) data) = Inr pairs"
    using row_ids [of h data] by blast
  then show ?thesis
    using assms by (simp add: read_labels_def Inr Let_def split: prod.splits)
qed


subsection \<open>The asymmetric mode of the renormalization\<close>

text \<open>
  Claim C7 as stated fails: with \<^verbatim>\<open>symmetric=False\<close> no error is raised, here for the
  matrix of the docstring.
\<close>

theorem renormalization_trick_asymmetric_no_error:
  "\<not> (\<exists>e. renormalization_trick docstring_adj False = Inl e)"
  by (simp add: renormalization_trick_def)

text \<open>
  Claim C7, amended. For every adjacency matrix, the renormalization trick with
  \<^verbatim>\<open>symmetric=False\<close> raises no error: the function has no asymmetric branch, falls off
  its end and returns \<^verbatim>\<open>None\<close>.
\<close>

theorem renormalization_trick_asymmetric_none:
  "renormalization_trick adj False = Inr None"
  by (simp add: renormalization_trick_def)

subsection \<open>The loss in the two modes\<close>

text \<open>
  Claim C8 as stated fails: in train mode, with the normalisation constant 2, the loss
  operator returns \<open>2 * ln 2\<close> for a per-node loss \<open>[ln 2, ln 2]\<close>, whose unweighted mean
  is \<open>ln 2\<close>.
\<close>

theorem loss_op_not_plain_mean:
  "weighted_cross_entropy_with_logits (bm_labels train_model) (bm_outputs train_model)
       (positive_sample_weight train_model) = Inr [ln 2, ln 2] \<and>
   reduce_mean [ln 2, ln 2] = Finite (ln 2) \<and>
   loss_op ieee_div_by_zero train_model = Inr (Finite (2 * ln 2)) \<and>
   loss_op ieee_div_by_zero train_model \<noteq> Inr (reduce_mean [ln 2, ln 2]) \<and>
   loss_op raising_div_by_zero train_model = Inr (Finite (2 * ln 2)) \<and>
   loss_op raising_div_by_zero train_model \<noteq> Inr (reduce_mean [ln 2, ln 2])"
  by (simp add: train_model_def zero_mask_model_def wce_example loss_op_def reduce_mean_def
      tf_div_def)

text \<open>
  Claim C8, amended. For every per-node loss vector \<open>L\<close> and mask: in train mode (with
  at least one node) the loss operator returns the normalisation constant times the
  unweighted mean of the per-node weighted cross-entropy over all nodes (the mask is not
  applied); in eval mode, for a valid mask of the shape of \<open>L\<close> whose sum is not zero, it
  returns the normalisation constant times the sum of per-node loss times mask divided
  by the sum of the mask.
\<close>

theorem loss_op_scaled:
  assumes "weighted_cross_entropy_with_logits (bm_labels self) (bm_outputs self)
             (positive_sample_weight self) = Inr L"
  shows "(bm_mode self = TRAIN \<and> L \<noteq> [] \<longrightarrow>
            loss_op div_by_zero self
              = Inr (Finite (normalisation_constant self * (sum_list L / real (length L))))) \<and>
         (bm_mode self \<noteq> TRAIN \<and> valid_indices (bm_mask self) \<and>
          st_dense_shape (bm_mask self) = length L \<and> sparse_reduce_sum (bm_mask self) \<noteq> 0 \<longrightarrow>
            loss_op div_by_zero self
              = Inr (Finite (normalisation_constant self *
                  (sum_list (map2 (*) L (mask_vector (bm_mask self)))
                     / sparse_reduce_sum (bm_mask self)))))"
  using assms by (simp add: loss_op_def reduce_mean_def tf_div_def masked_loss_nonzero)

theorem loss_op_scaled_witness:
  "loss_op ieee_div_by_zero train_model = Inr (Finite (2 * ln 2)) \<and>
   loss_op raising_div_by_zero eval_model = Inr (Finite (2 * ln 2))"
  using loss_op_scaled [where self = train_model and L = "[ln 2, ln 2]"
      and div_by_zero = ieee_div_by_zero]
    loss_op_scaled [where self = eval_model and L = "[ln 2, ln 2]"
      and div_by_zero = raising_div_by_zero]
  by (simp add: train_model_def eval_model_def zero_mask_model_def wce_example valid_indices_def
      sparse_reduce_sum_def mask_vector_def upt2)

subsection \<open>Symmetrization\<close>

lemma entry_symmetic_adj:
  "entry (symmetic_adj rnd A) i j =
     (if entry A i j < entry A j i
      then rnd (rnd (entry A i j + entry A j i) - entry A i j)
      else rnd (rnd (entry A i j)))"
  by (simp add: symmetic_adj_def Let_def sub_r_def add_r_def multiply_mask_def gt_m_def
      transpose_m_def)

lemma msize_symmetic_adj: "msize (symmetic_adj rnd A) = msize A"
  by (simp add: symmetic_adj_def Let_def sub_r_def add_r_def multiply_mask_def transpose_m_def)

lemma more_symmetic_adj: "matrix.more (symmetic_adj rnd A) = matrix.more A"
  by (simp add: symmetic_adj_def Let_def sub_r_def add_r_def multiply_mask_def transpose_m_def)

text \<open>The example of the docstring: \<open>[[1, 2], [1, 1]]\<close> becomes \<open>[[1, 2], [2, 1]]\<close>.\<close>

lemma symmetic_adj_docstring:
  "show_matrix (symmetic_adj float32 docstring_adj) = [[1, 2], [2, 1]]"
  by (simp add: show_matrix_def msize_symmetic_adj entry_symmetic_adj docstring_adj_def upt2
      float32_1 float32_2 float32_3)

text \<open>
  Where the rounding changes nothing (exact arithmetic), the symmetrization is the
  max-merge of the docstring, and it is idempotent.
\<close>

lemma symmetic_adj_exact_max:
  "entry (symmetic_adj (\<lambda>x. x) A) i j = max (entry A i j) (entry A j i) \<and>
   entry (symmetic_adj (\<lambda>x. x) A) i j = entry (symmetic_adj (\<lambda>x. x) A) j i"
  by (auto simp: entry_symmetic_adj max_def)

lemma symmetic_adj_exact_idempotent:
  "symmetic_adj (\<lambda>x. x) (symmetic_adj (\<lambda>x. x) A) = symmetic_adj (\<lambda>x. x) A"
proof (rule matrix.equality)
  show "entry (symmetic_adj (\<lambda>x. x) (symmetic_adj (\<lambda>x. x) A)) = entry (symmetic_adj (\<lambda>x. x) A)"
    by (intro ext) (simp add: entry_symmetic_adj)
qed (simp_all add: msize_symmetic_adj more_symmetic_adj)

text \<open>A symmetric matrix of floats is returned unchanged, whatever the rounding.\<close>

lemma symmetic_adj_symmetric_unchanged:
  assumes "\<forall>i j. entry B i j = entry B j i" and "\<forall>i j. rnd (entry B i j) = entry B i j"
  shows "symmetic_adj rnd B = B"
proof (rule matrix.equality)
  show "entry (symmetic_adj rnd B) = entry B"
    using assms by (intro ext) (simp add: entry_symmetic_adj)
qed (simp_all add: msize_symmetic_adj more_symmetic_adj)

lemma coo_rounding_adj:
  "make_coo 2 [(0, 1, 1), (1, 0, 16777216)] = Inr c \<Longrightarrow>
   show_matrix (coo_to_matrix float32 c) = show_matrix rounding_adj"
  by (auto simp: make_coo_def coo_to_matrix_def show_matrix_def rounding_adj_def upt2
      sum_duplicates_def)

text \<open>
  Claim C9, at a failing input. The claim, like the docstring of \<^verbatim>\<open>symmetic_adj\<close>,
  promises at the positions \<open>(i, j)\<close> and \<open>(j, i)\<close> the maximum of the two entries. For
  the edge file with the lines \<open>a b 1\<close> and \<open>b a 16777216\<close> the adjacency matrix that
  \<^verbatim>\<open>read_network\<close> stores is \<open>[[0, 16777215], [16777216, 0]]\<close>: it is not symmetric and
  its entry at \<open>(0, 1)\<close> is not the maximum 16777216. The source computes
  \<open>(a + b) - a\<close> in single precision, where \<open>1 + 16777216\<close> rounds to 16777216.
\<close>

theorem read_network_not_max_merge:
  "map_sum id (\<lambda>(adj, self). map_option show_matrix (g_adj self))
     (read_network cast_overflow network_graph
        (ThreeColumns [(''a'', ''b'', 1), (''b'', ''a'', 16777216)]))
   = Inr (Some [[0, 16777215], [16777216, 0]])"
  by (simp add: read_network_def network_graph_def init_graph_def edge_rows_def
      weighted_edges_def getitem_def to_int32_def py_int_def make_coo_def Let_def
      float32_0 float32_1 float32_two_24 float32_two_24_plus_1 float32_two_24_minus_1
      show_matrix_def msize_symmetic_adj entry_symmetic_adj coo_to_matrix_def
      sum_duplicates_def upt2)

text \<open>
  Claim C10, at a failing input. For the single-precision matrix
  \<open>[[0, 1], [16777216, 0]]\<close> one application of \<^verbatim>\<open>symmetic_adj\<close> gives
  \<open>[[0, 16777215], [16777216, 0]]\<close> and a second one gives
  \<open>[[0, 16777216], [16777216, 0]]\<close>: applying it twice is not applying it once.
\<close>

theorem symmetic_adj_not_idempotent:
  "show_matrix (symmetic_adj float32 rounding_adj) = [[0, 16777215], [16777216, 0]] \<and>
   show_matrix (symmetic_adj float32 (symmetic_adj float32 rounding_adj))
     = [[0, 16777216], [16777216, 0]]"
  by (simp add: show_matrix_def msize_symmetic_adj entry_symmetic_adj rounding_adj_def upt2
      float32_0 float32_two_24 float32_two_24_plus_1 float32_two_24_minus_1
      float32_two_25_minus_1)

end
